theory Spec2Isabelle
  imports Complex_Main
begin

section \<open>Numbers and the vector library\<close>

text \<open>
  The program computes with JavaScript numbers. They are modelled as mathematical reals:
  rounding, NaN and signed zero are outside the model, and every statement below is about
  the arithmetic the program writes down, carried out exactly.

  The program's vectors, quaternions and boxes come from the three.js library
  (\<^verbatim>\<open>THREE.Vector3\<close>, \<^verbatim>\<open>THREE.Quaternion\<close>, \<^verbatim>\<open>THREE.Box3\<close>). The operations
  the program calls are written out here as the library computes them. The library mutates
  its receiver; here every operation returns the new value.
\<close>

record vec3 =
  vx :: real
  vy :: real
  vz :: real

definition Vector3 :: "real \<Rightarrow> real \<Rightarrow> real \<Rightarrow> vec3" where
  "Vector3 a b c = \<lparr>vx = a, vy = b, vz = c\<rparr>"

definition add :: "vec3 \<Rightarrow> vec3 \<Rightarrow> vec3" where
  "add v w = \<lparr>vx = vx v + vx w, vy = vy v + vy w, vz = vz v + vz w\<rparr>"

definition sub :: "vec3 \<Rightarrow> vec3 \<Rightarrow> vec3" where
  "sub v w = \<lparr>vx = vx v - vx w, vy = vy v - vy w, vz = vz v - vz w\<rparr>"

definition multiplyScalar :: "vec3 \<Rightarrow> real \<Rightarrow> vec3" where
  "multiplyScalar v s = \<lparr>vx = vx v * s, vy = vy v * s, vz = vz v * s\<rparr>"

definition addScaledVector :: "vec3 \<Rightarrow> vec3 \<Rightarrow> real \<Rightarrow> vec3" where
  "addScaledVector v w s = \<lparr>vx = vx v + vx w * s, vy = vy v + vy w * s, vz = vz v + vz w * s\<rparr>"

definition dot :: "vec3 \<Rightarrow> vec3 \<Rightarrow> real" where
  "dot v w = vx v * vx w + vy v * vy w + vz v * vz w"

definition cross :: "vec3 \<Rightarrow> vec3 \<Rightarrow> vec3" where
  "cross a b = \<lparr>vx = vy a * vz b - vz a * vy b,
               vy = vz a * vx b - vx a * vz b,
               vz = vx a * vy b - vy a * vx b\<rparr>"

definition length_vec :: "vec3 \<Rightarrow> real" where
  "length_vec v = sqrt (vx v * vx v + vy v * vy v + vz v * vz v)"

text \<open>\<^verbatim>\<open>normalize()\<close> is \<^verbatim>\<open>divideScalar(length() || 1)\<close>, and
  \<^verbatim>\<open>divideScalar(s)\<close> is \<^verbatim>\<open>multiplyScalar(1 / s)\<close>: the zero vector stays.\<close>

definition normalize :: "vec3 \<Rightarrow> vec3" where
  "normalize v = multiplyScalar v (1 / (if length_vec v = 0 then 1 else length_vec v))"

definition distanceTo :: "vec3 \<Rightarrow> vec3 \<Rightarrow> real" where
  "distanceTo v w =
     sqrt ((vx v - vx w) * (vx v - vx w) + (vy v - vy w) * (vy v - vy w)
           + (vz v - vz w) * (vz v - vz w))"

record quat =
  qx :: real
  qy :: real
  qz :: real
  qw :: real

definition setFromAxisAngle :: "vec3 \<Rightarrow> real \<Rightarrow> quat" where
  "setFromAxisAngle axis angle =
     (let halfAngle = angle / 2; s = sin halfAngle
      in \<lparr>qx = vx axis * s, qy = vy axis * s, qz = vz axis * s, qw = cos halfAngle\<rparr>)"

text \<open>\<^verbatim>\<open>a.multiply(b)\<close> is the Hamilton product \<open>a * b\<close>.\<close>

definition multiply :: "quat \<Rightarrow> quat \<Rightarrow> quat" where
  "multiply a b =
     \<lparr>qx = qx a * qw b + qw a * qx b + qy a * qz b - qz a * qy b,
      qy = qy a * qw b + qw a * qy b + qz a * qx b - qx a * qz b,
      qz = qz a * qw b + qw a * qz b + qx a * qy b - qy a * qx b,
      qw = qw a * qw b - qx a * qx b - qy a * qy b - qz a * qz b\<rparr>"

definition length_quat :: "quat \<Rightarrow> real" where
  "length_quat q = sqrt (qx q * qx q + qy q * qy q + qz q * qz q + qw q * qw q)"

text \<open>\<^verbatim>\<open>Quaternion.normalize()\<close>: a zero quaternion becomes the identity, any other one is
  scaled by \<open>1 / length\<close>.\<close>

definition normalize_quat :: "quat \<Rightarrow> quat" where
  "normalize_quat q =
     (let l = length_quat q
      in if l = 0 then \<lparr>qx = 0, qy = 0, qz = 0, qw = 1\<rparr>
         else \<lparr>qx = qx q * (1 / l), qy = qy q * (1 / l), qz = qz q * (1 / l),
               qw = qw q * (1 / l)\<rparr>)"

text \<open>\<^verbatim>\<open>v.applyQuaternion(q)\<close>, as the library computes it: \<open>v + w t + q \<times> t\<close> with
  \<open>t = 2 (q \<times> v)\<close>. For a unit quaternion this is the rotation \<open>q * v * q\<^sup>-\<^sup>1\<close>.\<close>

definition applyQuaternion :: "vec3 \<Rightarrow> quat \<Rightarrow> vec3" where
  "applyQuaternion v q =
     (let tx = 2 * (qy q * vz v - qz q * vy v);
          ty = 2 * (qz q * vx v - qx q * vz v);
          tz = 2 * (qx q * vy v - qy q * vx v)
      in \<lparr>vx = vx v + qw q * tx + qy q * tz - qz q * ty,
          vy = vy v + qw q * ty + qz q * tx - qx q * tz,
          vz = vz v + qw q * tz + qx q * ty - qy q * tx\<rparr>)"

record box3 =
  bmin :: vec3
  bmax :: vec3

definition setFromCenterAndSize :: "vec3 \<Rightarrow> vec3 \<Rightarrow> box3" where
  "setFromCenterAndSize center sz =
     (let halfSize = multiplyScalar sz 0.5
      in \<lparr>bmin = sub center halfSize, bmax = add center halfSize\<rparr>)"

definition intersectsBox :: "box3 \<Rightarrow> box3 \<Rightarrow> bool" where
  "intersectsBox this box \<longleftrightarrow>
     vx (bmax box) \<ge> vx (bmin this) \<and> vx (bmin box) \<le> vx (bmax this) \<and>
     vy (bmax box) \<ge> vy (bmin this) \<and> vy (bmin box) \<le> vy (bmax this) \<and>
     vz (bmax box) \<ge> vz (bmin this) \<and> vz (bmin box) \<le> vz (bmax this)"


definition isEmpty :: "box3 \<Rightarrow> bool" where
  "isEmpty b \<longleftrightarrow>
     vx (bmax b) < vx (bmin b) \<or> vy (bmax b) < vy (bmin b) \<or> vz (bmax b) < vz (bmin b)"

definition getCenter :: "box3 \<Rightarrow> vec3" where
  "getCenter b = (if isEmpty b then Vector3 0 0 0 else multiplyScalar (add (bmin b) (bmax b)) 0.5)"

text \<open>\<^verbatim>\<open>a.clone().intersect(b)\<close> followed by \<^verbatim>\<open>getSize\<close>. The library takes the
  componentwise maximum of the two minima and minimum of the two maxima; an empty result is
  reset to the library's empty box, whose size \<^verbatim>\<open>getSize\<close> reports as zero.\<close>

definition intersect_raw :: "box3 \<Rightarrow> box3 \<Rightarrow> box3" where
  "intersect_raw a b =
     \<lparr>bmin = \<lparr>vx = max (vx (bmin a)) (vx (bmin b)), vy = max (vy (bmin a)) (vy (bmin b)),
              vz = max (vz (bmin a)) (vz (bmin b))\<rparr>,
      bmax = \<lparr>vx = min (vx (bmax a)) (vx (bmax b)), vy = min (vy (bmax a)) (vy (bmax b)),
              vz = min (vz (bmax a)) (vz (bmax b))\<rparr>\<rparr>"

definition intersect_getSize :: "box3 \<Rightarrow> box3 \<Rightarrow> vec3" where
  "intersect_getSize a b =
     (let i = intersect_raw a b
      in if isEmpty i then Vector3 0 0 0 else sub (bmax i) (bmin i))"

section \<open>The physics world\<close>

datatype collider_type = capsule | box

record collider =
  ctype :: collider_type
  csize :: vec3

record PhysicsBody =
  mass :: real
  position :: vec3
  velocity :: vec3
  rotation :: quat
  angularVelocity :: vec3
  bsize :: vec3
  collider :: collider
  isGrounded :: bool
  isSleeping :: bool

record PhysicsWorld =
  bodies :: "PhysicsBody list"
  staticColliders :: "box3 list"

definition GRAVITY :: vec3 where
  "GRAVITY = Vector3 0 (-25) 0"

definition MAX_STEP_HEIGHT :: real where
  "MAX_STEP_HEIGHT = 0.4"

subsection \<open>Registration\<close>

definition addBody :: "'a PhysicsWorld_scheme \<Rightarrow> PhysicsBody \<Rightarrow> 'a PhysicsWorld_scheme" where
  "addBody w body = w\<lparr>bodies := bodies w @ [body]\<rparr>"

definition addStaticCollider :: "'a PhysicsWorld_scheme \<Rightarrow> box3 \<Rightarrow> 'a PhysicsWorld_scheme" where
  "addStaticCollider w b = w\<lparr>staticColliders := staticColliders w @ [b]\<rparr>"

subsection \<open>Capsule resolution\<close>

text \<open>
  The \<^verbatim>\<open>else\<close> branch of the loop over the static boxes (``Wall Collision - Hard Push''),
  with its two pushes written as functions of their own: \<open>wallCollision_push\<close> for
  \<^verbatim>\<open>dist < radius && dist > 0\<close> and \<open>wallCollision_inside\<close> for \<^verbatim>\<open>dist === 0\<close>.
  In the source \<^verbatim>\<open>pos\<close> is the body's position object itself, so it is read from the
  body as it is when this box is reached.
\<close>

definition wallCollision_push :: "real \<Rightarrow> vec3 \<Rightarrow> real \<Rightarrow> PhysicsBody \<Rightarrow> PhysicsBody" where
  "wallCollision_push radius diff d body =
     (let overlap = radius - d;
          diff' = normalize diff;
          body' = body\<lparr>position := addScaledVector (position body) diff' overlap\<rparr>;
          vDot = dot (velocity body') diff'
      in if vDot < 0
         then body'\<lparr>velocity := addScaledVector (velocity body') diff' (- vDot)\<rparr>
         else body')"

definition wallCollision_inside :: "real \<Rightarrow> box3 \<Rightarrow> vec3 \<Rightarrow> PhysicsBody \<Rightarrow> PhysicsBody" where
  "wallCollision_inside radius staticBox center body =
     (let pos = position body;
          dx = (if vx pos > vx center then vx (bmax staticBox) - (vx pos - radius)
                else (vx pos + radius) - vx (bmin staticBox));
          dz = (if vz pos > vz center then vz (bmax staticBox) - (vz pos - radius)
                else (vz pos + radius) - vz (bmin staticBox))
      in if \<bar>dx\<bar> < \<bar>dz\<bar>
         then body\<lparr>position := pos\<lparr>vx := vx pos
                     + (if vx pos > vx center then 1 else - 1) * \<bar>dx * 0.5\<bar>\<rparr>\<rparr>
         else body\<lparr>position := pos\<lparr>vz := vz pos
                     + (if vz pos > vz center then 1 else - 1) * \<bar>dz * 0.5\<bar>\<rparr>\<rparr>)"

definition wallCollision :: "real \<Rightarrow> box3 \<Rightarrow> PhysicsBody \<Rightarrow> PhysicsBody" where
  "wallCollision radius staticBox body =
     (let pos = position body;
          center = getCenter staticBox;
          clampedX = max (vx (bmin staticBox)) (min (vx pos) (vx (bmax staticBox)));
          clampedZ = max (vz (bmin staticBox)) (min (vz pos) (vz (bmax staticBox)));
          diff = Vector3 (vx pos - clampedX) 0 (vz pos - clampedZ);
          dist = length_vec diff
      in if dist < radius \<and> dist > 0 then wallCollision_push radius diff dist body
         else if dist = 0 then wallCollision_inside radius staticBox center body
         else body)"


text \<open>
  One turn of the loop over the static boxes. \<^verbatim>\<open>playerBottom\<close> and \<^verbatim>\<open>capsuleBox\<close>
  are computed once before the loop and passed in; the position is read from the body.
\<close>

definition resolveCapsule_staticBox ::
    "real \<Rightarrow> real \<Rightarrow> real \<Rightarrow> box3 \<Rightarrow> PhysicsBody \<Rightarrow> box3 \<Rightarrow> PhysicsBody" where
  "resolveCapsule_staticBox radius halfHeight playerBottom capsuleBox body staticBox =
     (if intersectsBox capsuleBox staticBox then
        (let stepDiff = vy (bmax staticBox) - playerBottom
         in if stepDiff > 0 \<and> stepDiff \<le> MAX_STEP_HEIGHT
               \<and> vy (bmax staticBox) < vy (position body) + halfHeight - 0.1
            then body\<lparr>position := (position body)
                          \<lparr>vy := max (vy (position body)) (vy (bmax staticBox) + halfHeight)\<rparr>,
                      velocity := (velocity body)\<lparr>vy := 0\<rparr>,
                      isGrounded := True\<rparr>
            else wallCollision radius staticBox body)
      else body)"

text \<open>Step 1 of \<^verbatim>\<open>resolveCapsule\<close> (``Floor Plane Interaction'').\<close>

definition capsuleFloor :: "real \<Rightarrow> PhysicsBody \<Rightarrow> PhysicsBody" where
  "capsuleFloor halfHeight body =
     (if vy (position body) < halfHeight
      then body\<lparr>position := (position body)\<lparr>vy := halfHeight\<rparr>,
                velocity := (if vy (velocity body) < 0 then (velocity body)\<lparr>vy := 0\<rparr>
                             else velocity body),
                isGrounded := True\<rparr>
      else body)"

definition resolveCapsule :: "'a PhysicsWorld_scheme \<Rightarrow> PhysicsBody \<Rightarrow> PhysicsBody" where
  "resolveCapsule w body =
     (let radius = vx (csize (collider body));
          height = vy (csize (collider body));
          halfHeight = height / 2;
          body1 = capsuleFloor halfHeight body;
          pos = position body1;
          playerBottom = vy pos - halfHeight;
          capsuleBox = setFromCenterAndSize pos (Vector3 (radius * 2) height (radius * 2))
      in foldl (resolveCapsule_staticBox radius halfHeight playerBottom capsuleBox) body1
           (staticColliders w))"

subsection \<open>Box resolution\<close>

text \<open>The ground part of \<^verbatim>\<open>resolveBox\<close>.\<close>

definition boxGround :: "real \<Rightarrow> PhysicsBody \<Rightarrow> PhysicsBody" where
  "boxGround halfHeight body =
     (if vy (position body) < halfHeight
      then (let body' = body\<lparr>position := (position body)\<lparr>vy := halfHeight\<rparr>\<rparr>
            in if vy (velocity body') < 0
               then body'\<lparr>velocity := \<lparr>vx = vx (velocity body') * 0.99,
                                        vy = vy (velocity body') * (- 0.3),
                                        vz = vz (velocity body') * 0.99\<rparr>\<rparr>
               else body')
      else body)"

text \<open>One turn of the loop over the static boxes; \<^verbatim>\<open>pBox\<close> is computed once before it.\<close>

definition resolveBox_staticBox :: "box3 \<Rightarrow> PhysicsBody \<Rightarrow> box3 \<Rightarrow> PhysicsBody" where
  "resolveBox_staticBox pBox body staticBox =
     (if intersectsBox pBox staticBox then
        (let sz = intersect_getSize pBox staticBox;
             p = position body; v = velocity body
         in if vx sz < vz sz \<and> vx sz < vy sz then
              (let dir = (if vx p > vx (bmax staticBox) then 1 else - 1)
               in body\<lparr>position := p\<lparr>vx := vx p + vx sz * dir\<rparr>,
                       velocity := v\<lparr>vx := vx v * (- 0.5)\<rparr>\<rparr>)
            else if vz sz < vx sz \<and> vz sz < vy sz then
              (let dir = (if vz p > vz (bmax staticBox) then 1 else - 1)
               in body\<lparr>position := p\<lparr>vz := vz p + vz sz * dir\<rparr>,
                       velocity := v\<lparr>vz := vz v * (- 0.5)\<rparr>\<rparr>)
            else
              (let dir = (if vy p > vy (bmax staticBox) then 1 else - 1)
               in body\<lparr>position := p\<lparr>vy := vy p + vy sz * dir\<rparr>,
                       velocity := v\<lparr>vy := 0\<rparr>\<rparr>))
      else body)"

definition resolveBox :: "'a PhysicsWorld_scheme \<Rightarrow> PhysicsBody \<Rightarrow> PhysicsBody" where
  "resolveBox w body =
     (let halfHeight = vy (csize (collider body));
          body1 = boxGround halfHeight body;
          pBox = setFromCenterAndSize (position body1) (bsize body1)
      in foldl (resolveBox_staticBox pBox) body1 (staticColliders w))"

subsection \<open>simulate and step\<close>

text \<open>
  The part of \<^verbatim>\<open>simulate\<close> between the void guard and the collision resolution:
  gravity, damping, integration of the position and of the rotation.
\<close>

definition integrate :: "real \<Rightarrow> PhysicsBody \<Rightarrow> PhysicsBody" where
  "integrate dt body =
     (let v1 = addScaledVector (velocity body) GRAVITY dt;
          damping = (if isGrounded body then 0.05 else 0.01);
          v2 = multiplyScalar v1 (1.0 - damping);
          av = multiplyScalar (angularVelocity body) (1.0 - (2.0 * dt));
          p = addScaledVector (position body) v2 dt;
          angle = length_vec av * dt;
          r = (if angle > 0.0001
               then normalize_quat (multiply (rotation body) (setFromAxisAngle (normalize av) angle))
               else rotation body)
      in body\<lparr>velocity := v2, angularVelocity := av, position := p, rotation := r\<rparr>)"

text \<open>
  The body of the loop of \<^verbatim>\<open>simulate\<close>, for one body. The loop visits the bodies in
  order and each turn reads and writes its own body only (the static boxes are never
  written), so the loop is a map over the list. Bodies are values here: no object is
  registered twice, and two entries of the list do not share a vector object, as the
  constructors of the program's entities give every body fresh vectors. The loop over an
  array that may hold an object more than once is \<open>simulate_refs\<close> below.
\<close>

definition simulate_body :: "'a PhysicsWorld_scheme \<Rightarrow> real \<Rightarrow> PhysicsBody \<Rightarrow> PhysicsBody" where
  "simulate_body w dt body =
     (if mass body = 0 then body
      else if vy (position body) < - 20
      then body\<lparr>position := Vector3 0 10 0, velocity := Vector3 0 0 0\<rparr>
      else (let body1 = (integrate dt body)\<lparr>isGrounded := False\<rparr>
            in if ctype (collider body1) = capsule then resolveCapsule w body1
               else resolveBox w body1))"

definition simulate :: "'a PhysicsWorld_scheme \<Rightarrow> real \<Rightarrow> 'a PhysicsWorld_scheme" where
  "simulate w dt = w\<lparr>bodies := map (simulate_body w dt) (bodies w)\<rparr>"

fun step_loop :: "nat \<Rightarrow> real \<Rightarrow> 'a PhysicsWorld_scheme \<Rightarrow> 'a PhysicsWorld_scheme" where
  "step_loop 0 subDt w = w"
| "step_loop (Suc n) subDt w = step_loop n subDt (simulate w subDt)"

definition step :: "'a PhysicsWorld_scheme \<Rightarrow> real \<Rightarrow> 'a PhysicsWorld_scheme" where
  "step w dt = (let steps = 4; subDt = dt / real steps in step_loop steps subDt w)"

subsection \<open>Bodies as shared objects\<close>

text \<open>
  The array \<^verbatim>\<open>bodies\<close> holds references to body objects, and \<^verbatim>\<open>addBody\<close> does not
  look whether an object is already registered. Where that matters the objects live in a
  store, a list of bodies indexed by address, the array is a list of addresses, and a turn of
  the loop of \<^verbatim>\<open>simulate\<close> replaces the object at its address by the result of the loop
  body. An object registered twice is visited twice. The vectors of a body are its own.
\<close>

definition simulate_refs ::
    "'a PhysicsWorld_scheme \<Rightarrow> real \<Rightarrow> nat list \<Rightarrow> PhysicsBody list \<Rightarrow> PhysicsBody list" where
  "simulate_refs w dt refs store = foldl (\<lambda>s r. s[r := simulate_body w dt (s ! r)]) store refs"

fun step_loop_refs ::
    "nat \<Rightarrow> real \<Rightarrow> 'a PhysicsWorld_scheme \<Rightarrow> nat list \<Rightarrow> PhysicsBody list \<Rightarrow> PhysicsBody list" where
  "step_loop_refs 0 subDt w refs store = store"
| "step_loop_refs (Suc n) subDt w refs store
     = step_loop_refs n subDt w refs (simulate_refs w subDt refs store)"


subsection \<open>raycast\<close>

record hit =
  dist :: real
  point :: vec3
  normal :: vec3

definition raycast :: "'a PhysicsWorld_scheme \<Rightarrow> vec3 \<Rightarrow> vec3 \<Rightarrow> real \<Rightarrow> hit option" where
  "raycast w origin direction maxLength =
     (if vy direction < 0 then
        (let t = - vy origin / vy direction
         in if t \<ge> 0 \<and> t \<le> maxLength
            then Some \<lparr>dist = t, point = addScaledVector origin direction t,
                       normal = Vector3 0 1 0\<rparr>
            else None)
      else None)"

section \<open>Entities\<close>

text \<open>The bodies the constructors of \<^verbatim>\<open>Player\<close> and \<^verbatim>\<open>Car\<close> build.\<close>

definition Player_body :: "vec3 \<Rightarrow> PhysicsBody" where
  "Player_body startPos =
     \<lparr>mass = 75, position = startPos, velocity = Vector3 0 0 0,
      rotation = \<lparr>qx = 0, qy = 0, qz = 0, qw = 1\<rparr>, angularVelocity = Vector3 0 0 0,
      bsize = Vector3 0.5 1.8 0.5,
      collider = \<lparr>ctype = capsule, csize = Vector3 0.35 1.7 0\<rparr>,
      isGrounded = False, isSleeping = False\<rparr>"

datatype drivetrain = sedan | truck | sport

record VehicleConfig =
  name :: string
  vmass :: real
  enginePower :: real
  brakeForce :: real
  maxRPM :: real
  drag :: real
  suspensionLength :: real
  suspensionStiffness :: real
  suspensionDamping :: real
  frictionLat :: real
  frictionLong :: real
  turnSpeed :: real
  wheelRadius :: real
  width :: real
  vlength :: real
  height :: real
  color :: nat
  vtype :: drivetrain

definition CAR_SPORT :: VehicleConfig where
  "CAR_SPORT =
     \<lparr>name = ''Neon Blade'', vmass = 1400, enginePower = 18000, brakeForce = 450,
      maxRPM = 9000, drag = 0.3, suspensionLength = 0.4, suspensionStiffness = 60000,
      suspensionDamping = 5000, frictionLat = 20.0, frictionLong = 18.0, turnSpeed = 1.2,
      wheelRadius = 0.33, width = 1.9, vlength = 4.4, height = 1.2, color = 0xff0055,
      vtype = sport\<rparr>"

definition Car_body :: "vec3 \<Rightarrow> VehicleConfig \<Rightarrow> PhysicsBody" where
  "Car_body startPos config =
     \<lparr>mass = vmass config, position = startPos, velocity = Vector3 0 0 0,
      rotation = \<lparr>qx = 0, qy = 0, qz = 0, qw = 1\<rparr>, angularVelocity = Vector3 0 0 0,
      bsize = Vector3 (vlength config) (height config) (width config),
      collider = \<lparr>ctype = box,
                  csize = Vector3 (vlength config / 2) (height config / 2) (width config / 2)\<rparr>,
      isGrounded = True, isSleeping = False\<rparr>"

section \<open>Vehicle suspension\<close>

text \<open>
  The suspension part of the loop over the four mount points in \<^verbatim>\<open>Car.update\<close>: the
  ray of one wheel and, when the ray hits, the suspension force and the impulse pushed for
  it. The tire forces that follow in the same loop turn are not modelled. The velocity is
  read from the body as it is when the wheel is reached.
\<close>

definition mountPoints :: "vec3 list" where
  "mountPoints = (let wX = 0.85; wY = 0.2; wZ = 1.35
                  in [Vector3 (- wX) wY (- wZ), Vector3 wX wY (- wZ),
                      Vector3 (- wX) wY wZ, Vector3 wX wY wZ])"

record impulse =
  pos :: vec3
  force :: vec3

record suspension =
  rayOrigin :: vec3
  rayDirection :: vec3
  rayLength :: real
  suspensionForce :: real
  suspensionImpulse :: "impulse option"

definition Car_update_suspension ::
    "'a PhysicsWorld_scheme \<Rightarrow> PhysicsBody \<Rightarrow> VehicleConfig \<Rightarrow> vec3 \<Rightarrow> suspension" where
  "Car_update_suspension world body config mountLocal =
     (let mountWorld = add (applyQuaternion mountLocal (rotation body)) (position body);
          down = applyQuaternion (Vector3 0 (- 1) 0) (rotation body);
          maxLength = suspensionLength config + wheelRadius config
      in case raycast world mountWorld down maxLength of
           None \<Rightarrow> \<lparr>rayOrigin = mountWorld, rayDirection = down, rayLength = maxLength,
                     suspensionForce = 0, suspensionImpulse = None\<rparr>
         | Some hit \<Rightarrow>
             (let travel = dist hit - wheelRadius config;
                  compression = 1.0 - (travel / suspensionLength config);
                  compression' = max 0 (min 1 compression);
                  springF = compression' * suspensionStiffness config;
                  r = sub mountWorld (position body);
                  pointVel = add (velocity body) (cross (angularVelocity body) r);
                  velUp = dot pointVel down;
                  dampF = - velUp * suspensionDamping config;
                  sF = max 0 (springF + dampF);
                  suspensionImpulse = multiplyScalar down (- sF)
              in \<lparr>rayOrigin = mountWorld, rayDirection = down, rayLength = maxLength,
                  suspensionForce = sF,
                  suspensionImpulse = Some \<lparr>pos = mountWorld, force = suspensionImpulse\<rparr>\<rparr>))"

section \<open>Camera collision probe\<close>

subsection \<open>The ray-box test of the library\<close>

text \<open>
  \<^verbatim>\<open>Ray.intersectBox\<close> of three.js divides by the components of the direction and relies
  on the IEEE results for a zero component: \<open>1 / 0\<close> is \<open>+Infinity\<close>, \<open>0 * Infinity\<close> is NaN,
  and every comparison with NaN is false. These values are modelled by \<open>xnum\<close>; a zero
  component is taken as \<open>+0\<close>.
\<close>

datatype xnum = Fin real | PInf | MInf | NaN

definition recip :: "real \<Rightarrow> xnum" where
  "recip d = (if d = 0 then PInf else Fin (1 / d))"

fun xmul :: "real \<Rightarrow> xnum \<Rightarrow> xnum" where
  "xmul a (Fin b) = Fin (a * b)"
| "xmul a PInf = (if a > 0 then PInf else if a < 0 then MInf else NaN)"
| "xmul a MInf = (if a > 0 then MInf else if a < 0 then PInf else NaN)"
| "xmul a NaN = NaN"

fun xgt :: "xnum \<Rightarrow> xnum \<Rightarrow> bool" where
  "xgt (Fin a) (Fin b) = (a > b)"
| "xgt PInf (Fin b) = True"
| "xgt PInf MInf = True"
| "xgt (Fin a) MInf = True"
| "xgt a b = False"

fun xge0 :: "xnum \<Rightarrow> bool" where
  "xge0 (Fin a) = (a \<ge> 0)"
| "xge0 PInf = True"
| "xge0 a = False"

fun xlt0 :: "xnum \<Rightarrow> bool" where
  "xlt0 (Fin a) = (a < 0)"
| "xlt0 MInf = True"
| "xlt0 a = False"

fun isNaN :: "xnum \<Rightarrow> bool" where
  "isNaN NaN = True"
| "isNaN a = False"

text \<open>The entry and exit parameters of the ray for one axis, as the library computes them
  three times over.\<close>

definition slab :: "real \<Rightarrow> real \<Rightarrow> real \<Rightarrow> real \<Rightarrow> xnum \<times> xnum" where
  "slab orig d lo hi =
     (let invdir = recip d
      in if xge0 invdir then (xmul (lo - orig) invdir, xmul (hi - orig) invdir)
         else (xmul (hi - orig) invdir, xmul (lo - orig) invdir))"

text \<open>The parameter \<open>t\<close> that \<^verbatim>\<open>intersectBox\<close> passes to \<^verbatim>\<open>Ray.at\<close>, or \<open>None\<close> where it
  returns \<^verbatim>\<open>null\<close>.\<close>

definition intersectBox :: "vec3 \<Rightarrow> vec3 \<Rightarrow> box3 \<Rightarrow> xnum option" where
  "intersectBox origin direction b =
     (let (tmin, tmax) = slab (vx origin) (vx direction) (vx (bmin b)) (vx (bmax b));
          (tymin, tymax) = slab (vy origin) (vy direction) (vy (bmin b)) (vy (bmax b))
      in if xgt tmin tymax \<or> xgt tymin tmax then None
         else
          (let tmin = (if xgt tymin tmin \<or> isNaN tmin then tymin else tmin);
               tmax = (if xgt tmax tymax \<or> isNaN tmax then tymax else tmax);
               (tzmin, tzmax) = slab (vz origin) (vz direction) (vz (bmin b)) (vz (bmax b))
           in if xgt tmin tzmax \<or> xgt tzmin tmax then None
              else
               (let tmin = (if xgt tzmin tmin \<or> isNaN tmin then tzmin else tmin);
                    tmax = (if xgt tmax tzmax \<or> isNaN tmax then tzmax else tmax)
                in if xlt0 tmax then None
                   else Some (if xge0 tmin then tmin else tmax))))"

subsection \<open>The third-person branch of CameraRig.update\<close>

definition thirdPersonDist :: real where
  "thirdPersonDist = 6.0"

definition thirdPersonHeight :: real where
  "thirdPersonHeight = 2.0"

text \<open>``Orbit Math'': the offset of the desired camera position from the target.\<close>

definition camOffset :: "real \<Rightarrow> real \<Rightarrow> vec3" where
  "camOffset viewX viewY =
     (let yaw = viewX;
          pitch = max (- 0.5) (min 1.0 viewY);
          d = thirdPersonDist;
          hOffset = sin pitch * d;
          rOffset = cos pitch * d;
          offsetX = sin yaw * rOffset;
          offsetZ = cos yaw * rOffset
      in Vector3 offsetX (hOffset + thirdPersonHeight) offsetZ)"

text \<open>
  One turn of the loop over the static boxes: the new \<^verbatim>\<open>hitDist\<close>. Where the library
  returns a point for an infinite or NaN parameter, its distance from the ray start is
  infinite or NaN and \<^verbatim>\<open>d < hitDist\<close> is false, as for \<^verbatim>\<open>null\<close>.
\<close>

definition probeBox :: "vec3 \<Rightarrow> vec3 \<Rightarrow> real \<Rightarrow> box3 \<Rightarrow> real" where
  "probeBox rayStart direction hitDist b =
     (case intersectBox rayStart direction b of
        Some (Fin t) \<Rightarrow>
          (let intersect = addScaledVector rayStart direction t;
               d = distanceTo rayStart intersect
           in if d < hitDist then d else hitDist)
      | _ \<Rightarrow> hitDist)"

text \<open>The values the branch computes on its way: direction and length of the whisker, its
  start, and the closest hit.\<close>

definition whiskerDirection :: "vec3 \<Rightarrow> real \<Rightarrow> real \<Rightarrow> vec3" where
  "whiskerDirection targetPos viewX viewY =
     normalize (sub (add targetPos (camOffset viewX viewY)) targetPos)"

definition fullDist :: "vec3 \<Rightarrow> real \<Rightarrow> real \<Rightarrow> real" where
  "fullDist targetPos viewX viewY = distanceTo targetPos (add targetPos (camOffset viewX viewY))"

definition rayStart :: "vec3 \<Rightarrow> vec3" where
  "rayStart targetPos = add targetPos (Vector3 0 1.0 0)"

definition hitDist :: "'a PhysicsWorld_scheme \<Rightarrow> vec3 \<Rightarrow> real \<Rightarrow> real \<Rightarrow> real" where
  "hitDist world targetPos viewX viewY =
     foldl (probeBox (rayStart targetPos) (whiskerDirection targetPos viewX viewY))
       (fullDist targetPos viewX viewY) (staticColliders world)"

text \<open>The desired camera position after the collision probe, before smoothing.\<close>

definition thirdPerson_desiredPos :: "'a PhysicsWorld_scheme \<Rightarrow> vec3 \<Rightarrow> real \<Rightarrow> real \<Rightarrow> vec3" where
  "thirdPerson_desiredPos world targetPos viewX viewY =
     (let desiredPos = add targetPos (camOffset viewX viewY);
          direction = whiskerDirection targetPos viewX viewY;
          h = hitDist world targetPos viewX viewY
      in if h < fullDist targetPos viewX viewY
         then add (rayStart targetPos) (multiplyScalar direction (h - 0.2))
         else desiredPos)"


record CameraRig =
  currentPos :: vec3
  currentLookAt :: vec3

definition lerp :: "vec3 \<Rightarrow> vec3 \<Rightarrow> real \<Rightarrow> vec3" where
  "lerp v w alpha = \<lparr>vx = vx v + (vx w - vx v) * alpha, vy = vy v + (vy w - vy v) * alpha,
                     vz = vz v + (vz w - vz v) * alpha\<rparr>"

definition update_thirdPerson ::
    "CameraRig \<Rightarrow> real \<Rightarrow> vec3 \<Rightarrow> real \<Rightarrow> real \<Rightarrow> 'a PhysicsWorld_scheme \<Rightarrow> CameraRig" where
  "update_thirdPerson rig dt targetPos viewX viewY world =
     (let desiredPos = thirdPerson_desiredPos world targetPos viewX viewY
      in \<lparr>currentPos = lerp (currentPos rig) desiredPos (1.0 - 0.001 powr dt),
          currentLookAt = lerp (currentLookAt rig) (add targetPos (Vector3 0 1.0 0))
                            (1.0 - 0.001 powr dt)\<rparr>)"

section \<open>Properties of the physics world\<close>

subsection \<open>The world is read through its static boxes only\<close>

lemma resolveCapsule_static:
  "staticColliders w = staticColliders w' \<Longrightarrow> resolveCapsule w b = resolveCapsule w' b"
  by (simp add: resolveCapsule_def)

lemma resolveBox_static:
  "staticColliders w = staticColliders w' \<Longrightarrow> resolveBox w b = resolveBox w' b"
  by (simp add: resolveBox_def)

lemma simulate_body_static:
  assumes "staticColliders w = staticColliders w'"
  shows "simulate_body w dt b = simulate_body w' dt b"
proof -
  have "resolveCapsule w = resolveCapsule w'" "resolveBox w = resolveBox w'"
    by (rule ext, rule resolveCapsule_static, rule assms)
       (rule ext, rule resolveBox_static, rule assms)
  then show ?thesis by (simp add: simulate_body_def Let_def)
qed

lemma staticColliders_simulate [simp]: "staticColliders (simulate w dt) = staticColliders w"
  by (simp add: simulate_def)

lemma bodies_simulate: "bodies (simulate w dt) = map (simulate_body w dt) (bodies w)"
  by (simp add: simulate_def)

lemma staticColliders_step_loop [simp]: "staticColliders (step_loop n sd w) = staticColliders w"
  by (induction n arbitrary: w) simp_all

text \<open>The four sub-steps act on every body separately.\<close>

lemma bodies_step_loop:
  "bodies (step_loop n sd w) = map ((simulate_body w sd) ^^ n) (bodies w)"
proof (induction n arbitrary: w)
  case 0
  show ?case by simp
next
  case (Suc n)
  have "simulate_body (simulate w sd) sd = simulate_body w sd"
    by (rule ext) (rule simulate_body_static, simp)
  then show ?case
    by (simp add: Suc bodies_simulate funpow_swap1)
qed

lemma staticColliders_step [simp]: "staticColliders (step w dt) = staticColliders w"
  by (simp add: step_def)

lemma bodies_step: "bodies (step w dt) = map ((simulate_body w (dt / 4)) ^^ 4) (bodies w)"
  by (simp add: step_def bodies_step_loop del: funpow.simps)

lemma simulate_body_mass0: "mass b = 0 \<Longrightarrow> simulate_body w dt b = b"
  by (simp add: simulate_body_def)

lemma funpow_fixed: "f x = x \<Longrightarrow> (f ^^ n) x = x"
  by (induction n) simp_all

subsection \<open>raycast\<close>

text \<open>
  Claim C4. \<^verbatim>\<open>raycast\<close> returns a hit exactly when \<open>direction.y < 0\<close> and
  \<open>t = -origin.y / direction.y\<close> lies in \<open>[0, maxLength]\<close>. The hit then has distance \<open>t\<close>,
  point \<open>origin + t * direction\<close>, which lies on the plane \<open>y = 0\<close>, and normal \<open>(0, 1, 0)\<close>;
  no other parameter of the ray meets the plane, so it is the nearest one. The static boxes
  of the world play no part: replacing them by any list \<open>cs\<close> leaves the result as it is.
\<close>

theorem raycast_ground_plane:
  fixes w :: "'a PhysicsWorld_scheme" and origin direction :: vec3
  defines "t \<equiv> - vy origin / vy direction"
  shows "(raycast w origin direction maxLength \<noteq> None
            \<longleftrightarrow> vy direction < 0 \<and> 0 \<le> t \<and> t \<le> maxLength)
       \<and> (\<forall>h. raycast w origin direction maxLength = Some h \<longrightarrow>
             dist h = t \<and> point h = addScaledVector origin direction t
             \<and> normal h = Vector3 0 1 0 \<and> vy (point h) = 0
             \<and> (\<forall>s. vy (addScaledVector origin direction s) = 0 \<longrightarrow> dist h = s))
       \<and> raycast (w\<lparr>staticColliders := cs\<rparr>) origin direction maxLength
           = raycast w origin direction maxLength"
  unfolding t_def
  by (auto simp: raycast_def Let_def addScaledVector_def Vector3_def field_simps split: if_splits)

theorem raycast_ground_plane_witness:
  "raycast \<lparr>bodies = [], staticColliders = []\<rparr> (Vector3 0 1 0) (Vector3 0 (- 1) 0) 2
     = Some \<lparr>dist = 1, point = Vector3 0 0 0, normal = Vector3 0 1 0\<rparr>
   \<and> raycast \<lparr>bodies = [], staticColliders = [\<lparr>bmin = Vector3 (- 1) 0 (- 1), bmax = Vector3 1 (1 / 2) 1\<rparr>]\<rparr>
        (Vector3 0 1 0) (Vector3 0 (- 1) 0) 2
     = Some \<lparr>dist = 1, point = Vector3 0 0 0, normal = Vector3 0 1 0\<rparr>
   \<and> raycast \<lparr>bodies = [], staticColliders = []\<rparr> (Vector3 0 1 0) (Vector3 0 (- 1) 0) (1 / 2)
     = None"
  using raycast_ground_plane [of "\<lparr>bodies = [], staticColliders = []\<rparr>" "Vector3 0 1 0"
      "Vector3 0 (- 1) 0" 2
      "[\<lparr>bmin = Vector3 (- 1) 0 (- 1), bmax = Vector3 1 (1 / 2) 1\<rparr>]"]
    raycast_ground_plane [of "\<lparr>bodies = [], staticColliders = []\<rparr>" "Vector3 0 1 0"
      "Vector3 0 (- 1) 0" "1 / 2" "[]"]
  by (simp add: Vector3_def addScaledVector_def) (simp add: raycast_def)

subsection \<open>Bodies of mass zero\<close>

text \<open>
  Claim C8. A body of mass \<open>0\<close> is left as it is by \<^verbatim>\<open>step\<close>: its position, velocity and
  orientation (and every other field) are unchanged, for every \<open>dt\<close> and every world.
\<close>

theorem step_static_body_unchanged:
  assumes "i < length (bodies w)" and "mass (bodies w ! i) = 0"
  shows "length (bodies (step w dt)) = length (bodies w) \<and> bodies (step w dt) ! i = bodies w ! i"
  using assms by (simp add: bodies_step funpow_fixed simulate_body_mass0 del: funpow.simps)

theorem step_static_body_unchanged_witness:
  "mass ((Player_body (Vector3 0 5 0))\<lparr>mass := 0\<rparr>) = 0
   \<and> bodies (step \<lparr>bodies = [(Player_body (Vector3 0 5 0))\<lparr>mass := 0\<rparr>],
                    staticColliders = []\<rparr> (1 / 60)) ! 0
       = (Player_body (Vector3 0 5 0))\<lparr>mass := 0\<rparr>"
  using step_static_body_unchanged [of 0
      "\<lparr>bodies = [(Player_body (Vector3 0 5 0))\<lparr>mass := 0\<rparr>], staticColliders = []\<rparr>" "1 / 60"]
  by simp

subsection \<open>Capsule resolution\<close>

lemma vy_normalize_flat [simp]: "vy (normalize (Vector3 a 0 c)) = 0"
  by (simp add: normalize_def multiplyScalar_def Vector3_def)

text \<open>Both wall pushes move the body in \<open>x\<close> and \<open>z\<close> only, and change neither
  \<open>velocity.y\<close> nor any field other than position and velocity.\<close>

lemma wallCollision_push_frame:
  "\<exists>p v. wallCollision_push radius (Vector3 a 0 c) d body = body\<lparr>position := p, velocity := v\<rparr>
         \<and> vy p = vy (position body) \<and> vy v = vy (velocity body)"
proof -
  let ?n = "normalize (Vector3 a 0 c)"
  let ?p = "addScaledVector (position body) ?n (radius - d)"
  let ?b = "body\<lparr>position := ?p\<rparr>"
  have p: "vy ?p = vy (position body)" by (simp add: addScaledVector_def)
  show ?thesis
  proof (cases "dot (velocity ?b) ?n < 0")
    case True
    let ?v = "addScaledVector (velocity ?b) ?n (- dot (velocity ?b) ?n)"
    have "wallCollision_push radius (Vector3 a 0 c) d body = body\<lparr>position := ?p, velocity := ?v\<rparr>"
      using True by (simp add: wallCollision_push_def Let_def)
    moreover have "vy ?v = vy (velocity body)" by (simp add: addScaledVector_def)
    ultimately show ?thesis using p by blast
  next
    case False
    have "wallCollision_push radius (Vector3 a 0 c) d body
            = body\<lparr>position := ?p, velocity := velocity body\<rparr>"
      using False by (simp add: wallCollision_push_def Let_def)
    then show ?thesis using p by blast
  qed
qed

lemma wallCollision_inside_frame:
  "\<exists>p. wallCollision_inside radius staticBox center body
         = body\<lparr>position := p, velocity := velocity body\<rparr> \<and> vy p = vy (position body)"
  by (cases "\<bar>if vx (position body) > vx center
               then vx (bmax staticBox) - (vx (position body) - radius)
               else (vx (position body) + radius) - vx (bmin staticBox)\<bar>
             < \<bar>if vz (position body) > vz center
                 then vz (bmax staticBox) - (vz (position body) - radius)
                 else (vz (position body) + radius) - vz (bmin staticBox)\<bar>")
     (simp_all only: wallCollision_inside_def Let_def if_True if_False, auto)

lemma wallCollision_frame:
  "\<exists>p v. wallCollision radius staticBox body = body\<lparr>position := p, velocity := v\<rparr>
         \<and> vy p = vy (position body) \<and> vy v = vy (velocity body)"
proof -
  obtain a c where w: "wallCollision radius staticBox body
      = (if length_vec (Vector3 a 0 c) < radius \<and> length_vec (Vector3 a 0 c) > 0
         then wallCollision_push radius (Vector3 a 0 c) (length_vec (Vector3 a 0 c)) body
         else if length_vec (Vector3 a 0 c) = 0
         then wallCollision_inside radius staticBox (getCenter staticBox) body
         else body)"
    unfolding wallCollision_def Let_def by blast
  have b: "body = body\<lparr>position := position body, velocity := velocity body\<rparr>" by simp
  show ?thesis
    unfolding w
    using wallCollision_push_frame [of radius a c "length_vec (Vector3 a 0 c)" body]
      wallCollision_inside_frame [of radius staticBox "getCenter staticBox" body] b
    by (metis (full_types))
qed

lemma wallCollision_vy [simp]:
  "vy (position (wallCollision radius staticBox body)) = vy (position body)"
  using wallCollision_frame [of radius staticBox body] by auto

lemma wallCollision_velocity_vy [simp]:
  "vy (velocity (wallCollision radius staticBox body)) = vy (velocity body)"
  using wallCollision_frame [of radius staticBox body] by auto

lemma wallCollision_isGrounded [simp]:
  "isGrounded (wallCollision radius staticBox body) = isGrounded body"
  using wallCollision_frame [of radius staticBox body] by auto

lemma wallCollision_rotation [simp]:
  "rotation (wallCollision radius staticBox body) = rotation body"
  using wallCollision_frame [of radius staticBox body] by auto

lemma resolveCapsule_staticBox_vy:
  "vy (position body)
     \<le> vy (position (resolveCapsule_staticBox radius halfHeight playerBottom capsuleBox body sb))"
  by (simp add: resolveCapsule_staticBox_def Let_def)

lemma foldl_resolveCapsule_staticBox_vy:
  "vy (position body)
     \<le> vy (position (foldl (resolveCapsule_staticBox radius halfHeight playerBottom capsuleBox)
                        body cs))"
proof (induction cs arbitrary: body)
  case Nil
  show ?case by simp
next
  case (Cons sb cs)
  have "vy (position body)
          \<le> vy (position (resolveCapsule_staticBox radius halfHeight playerBottom capsuleBox body sb))"
    by (rule resolveCapsule_staticBox_vy)
  also have "\<dots> \<le> vy (position (foldl (resolveCapsule_staticBox radius halfHeight playerBottom
               capsuleBox) (resolveCapsule_staticBox radius halfHeight playerBottom capsuleBox body sb) cs))"
    by (rule Cons.IH)
  finally show ?case by simp
qed

lemma capsuleFloor_vy: "vy (position body) \<le> vy (position (capsuleFloor halfHeight body))"
  by (simp add: capsuleFloor_def)

text \<open>
  Claim C9. Capsule resolution never lowers a body: \<open>position.y\<close> after
  \<^verbatim>\<open>resolveCapsule\<close> is at least \<open>position.y\<close> before it, for every body and every list of
  static boxes.
\<close>

theorem resolveCapsule_never_lowers:
  "vy (position body) \<le> vy (position (resolveCapsule w body))"
  unfolding resolveCapsule_def Let_def
  by (rule order_trans [OF capsuleFloor_vy foldl_resolveCapsule_staticBox_vy])

theorem resolveCapsule_never_lowers_witness:
  "(17 / 20 :: real) \<le> vy (position (resolveCapsule
         \<lparr>bodies = [], staticColliders = [\<lparr>bmin = Vector3 (- 1) 0 (1 / 5), bmax = Vector3 1 (2 / 5) 2\<rparr>]\<rparr>
         (Player_body (Vector3 0 (17 / 20) 0))))"
  using resolveCapsule_never_lowers [of "Player_body (Vector3 0 (17 / 20) 0)"
      "\<lparr>bodies = [], staticColliders = [\<lparr>bmin = Vector3 (- 1) 0 (1 / 5), bmax = Vector3 1 (2 / 5) 2\<rparr>]\<rparr>"]
  by (simp add: Player_body_def Vector3_def)

text \<open>A static box that the capsule's bounding box misses is skipped by the loop.\<close>

lemma foldl_resolveCapsule_staticBox_miss:
  "\<forall>sb\<in>set cs. \<not> intersectsBox cb sb \<Longrightarrow> foldl (resolveCapsule_staticBox r hh pb cb) b cs = b"
  by (induction cs) (simp_all add: resolveCapsule_staticBox_def)

lemma foldl_resolveBox_staticBox_miss:
  "\<forall>sb\<in>set cs. \<not> intersectsBox pb sb \<Longrightarrow> foldl (resolveBox_staticBox pb) b cs = b"
  by (induction cs) (simp_all add: resolveBox_staticBox_def)

















section \<open>Properties of the integration\<close>

subsection \<open>Orientation\<close>

lemma length_quat_normalize_quat: "length_quat (normalize_quat q) = 1"
proof (cases "length_quat q = 0")
  case True
  then show ?thesis by (simp add: normalize_quat_def length_quat_def)
next
  case False
  define n where "n = qx q * qx q + qy q * qy q + qz q * qz q + qw q * qw q"
  have l: "length_quat q = sqrt n" by (simp add: length_quat_def n_def)
  have n0: "0 \<le> n" by (simp add: n_def)
  with False l have npos: "0 < n" by (cases "n = 0") auto
  have ss: "1 / sqrt n * (1 / sqrt n) = 1 / n" using npos by (simp add: field_simps)
  have "qx q * c * (qx q * c) + qy q * c * (qy q * c) + qz q * c * (qz q * c)
          + qw q * c * (qw q * c) = n * (c * c)" for c
    unfolding n_def by (simp only: algebra_simps)
  from this [of "1 / sqrt n"] ss npos
  have "qx q * (1 / sqrt n) * (qx q * (1 / sqrt n)) + qy q * (1 / sqrt n) * (qy q * (1 / sqrt n))
          + qz q * (1 / sqrt n) * (qz q * (1 / sqrt n)) + qw q * (1 / sqrt n) * (qw q * (1 / sqrt n))
        = 1"
    by simp
  then have "length_quat \<lparr>qx = qx q * (1 / sqrt n), qy = qy q * (1 / sqrt n),
                           qz = qz q * (1 / sqrt n), qw = qw q * (1 / sqrt n)\<rparr> = 1"
    unfolding length_quat_def by (simp only: quat.simps real_sqrt_one)
  then show ?thesis using False l
    by (simp add: normalize_quat_def Let_def)
qed

lemma rotation_integrate_unit:
  "length_quat (rotation b) = 1 \<Longrightarrow> length_quat (rotation (integrate dt b)) = 1"
  by (simp add: integrate_def Let_def length_quat_normalize_quat)

lemma rotation_resolveCapsule_staticBox [simp]:
  "rotation (resolveCapsule_staticBox r hh pb cb b sb) = rotation b"
  by (simp add: resolveCapsule_staticBox_def Let_def)

lemma rotation_foldl_resolveCapsule_staticBox [simp]:
  "rotation (foldl (resolveCapsule_staticBox r hh pb cb) b cs) = rotation b"
  by (induction cs arbitrary: b) simp_all

lemma rotation_resolveCapsule [simp]: "rotation (resolveCapsule w b) = rotation b"
  by (simp add: resolveCapsule_def Let_def capsuleFloor_def)

lemma rotation_resolveBox_staticBox [simp]:
  "rotation (resolveBox_staticBox pb b sb) = rotation b"
  by (simp add: resolveBox_staticBox_def Let_def)

lemma rotation_foldl_resolveBox_staticBox [simp]:
  "rotation (foldl (resolveBox_staticBox pb) b cs) = rotation b"
  by (induction cs arbitrary: b) simp_all

lemma rotation_resolveBox [simp]: "rotation (resolveBox w b) = rotation b"
  by (simp add: resolveBox_def Let_def boxGround_def)

lemma rotation_simulate_body:
  "rotation (simulate_body w dt b)
     = (if mass b = 0 \<or> vy (position b) < - 20 then rotation b else rotation (integrate dt b))"
  by (simp add: simulate_body_def Let_def)

lemma rotation_simulate_body_unit:
  "length_quat (rotation b) = 1 \<Longrightarrow> length_quat (rotation (simulate_body w dt b)) = 1"
  by (simp add: rotation_simulate_body rotation_integrate_unit)

text \<open>
  Claim C7. A body whose orientation has norm \<open>1\<close> keeps an orientation of norm \<open>1\<close> through
  any finite sequence of sub-steps, whatever angular velocity \<open>av\<close> the body is given
  before each of them and whatever the sub-step's \<open>dt\<close>. (In exact arithmetic the norm is
  \<open>1\<close>, not only close to it: a rotating sub-step ends with a normalisation.) A sub-step
  whose angle \<open>|angularVelocity| * dt\<close> is at most \<open>0.0001\<close> leaves the orientation as it is.
\<close>

theorem orientation_stays_unit:
  assumes "length_quat (rotation b) = 1"
  shows "length_quat (rotation (foldl (\<lambda>b (av, dt). simulate_body w dt (b\<lparr>angularVelocity := av\<rparr>))
                                  b substeps)) = 1
       \<and> (length_vec (angularVelocity (integrate dt b)) * dt \<le> 0.0001
            \<longrightarrow> rotation (integrate dt b) = rotation b)"
proof
  show "length_quat (rotation (foldl (\<lambda>b (av, dt). simulate_body w dt (b\<lparr>angularVelocity := av\<rparr>))
                                  b substeps)) = 1"
    using assms
  proof (induction substeps arbitrary: b)
    case Nil
    then show ?case by simp
  next
    case (Cons s substeps)
    obtain av dt where s: "s = (av, dt)" by (cases s)
    have "length_quat (rotation (simulate_body w dt (b\<lparr>angularVelocity := av\<rparr>))) = 1"
      using Cons.prems by (intro rotation_simulate_body_unit) simp
    then show ?case using Cons.IH by (simp add: s)
  qed
  show "length_vec (angularVelocity (integrate dt b)) * dt \<le> 0.0001
            \<longrightarrow> rotation (integrate dt b) = rotation b"
    by (simp add: integrate_def Let_def)
qed

theorem orientation_stays_unit_witness:
  "length_quat (rotation (Player_body (Vector3 0 5 0))) = 1
   \<and> length_quat (rotation (foldl (\<lambda>b (av, dt). simulate_body
          \<lparr>bodies = [], staticColliders = []\<rparr> dt (b\<lparr>angularVelocity := av\<rparr>))
        (Player_body (Vector3 0 5 0))
        [(Vector3 0 3 0, 1 / 240), (Vector3 1 0 0, 1 / 240), (Vector3 0 0 0, 1 / 240)])) = 1"
proof -
  have h: "length_quat (rotation (Player_body (Vector3 0 5 0))) = 1"
    by (simp add: Player_body_def length_quat_def)
  from orientation_stays_unit [OF h] h show ?thesis by blast
qed

subsection \<open>Damping\<close>

lemma angularVelocity_wallCollision [simp]:
  "angularVelocity (wallCollision radius staticBox body) = angularVelocity body"
  using wallCollision_frame [of radius staticBox body] by auto

lemma angularVelocity_resolveCapsule_staticBox [simp]:
  "angularVelocity (resolveCapsule_staticBox r hh pb cb b sb) = angularVelocity b"
  by (simp add: resolveCapsule_staticBox_def Let_def)

lemma angularVelocity_foldl_resolveCapsule_staticBox [simp]:
  "angularVelocity (foldl (resolveCapsule_staticBox r hh pb cb) b cs) = angularVelocity b"
  by (induction cs arbitrary: b) simp_all

lemma angularVelocity_resolveCapsule [simp]:
  "angularVelocity (resolveCapsule w b) = angularVelocity b"
  by (simp add: resolveCapsule_def Let_def capsuleFloor_def)

lemma angularVelocity_resolveBox_staticBox [simp]:
  "angularVelocity (resolveBox_staticBox pb b sb) = angularVelocity b"
  by (simp add: resolveBox_staticBox_def Let_def)

lemma angularVelocity_foldl_resolveBox_staticBox [simp]:
  "angularVelocity (foldl (resolveBox_staticBox pb) b cs) = angularVelocity b"
  by (induction cs arbitrary: b) simp_all

lemma angularVelocity_resolveBox [simp]: "angularVelocity (resolveBox w b) = angularVelocity b"
  by (simp add: resolveBox_def Let_def boxGround_def)

lemma velocity_integrate:
  "velocity (integrate dt b)
     = multiplyScalar (addScaledVector (velocity b) GRAVITY dt)
         (if isGrounded b then 0.95 else 0.99)"
  by (simp add: integrate_def Let_def)

lemma angularVelocity_integrate:
  "angularVelocity (integrate dt b) = multiplyScalar (angularVelocity b) (1 - 2 * dt)"
  by (simp add: integrate_def Let_def)

lemma position_integrate:
  "position (integrate dt b) = addScaledVector (position b) (velocity (integrate dt b)) dt"
  by (simp add: integrate_def Let_def)

text \<open>A capsule in a world without static boxes: a sub-step changes the horizontal velocity
  by the damping factor only, and the body stays above the void threshold.\<close>

lemma funpow_4: "(f ^^ 4) x = f (f (f (f x)))"
  by (simp add: eval_nat_numeral)

lemma capsule_open_substep:
  fixes w :: "'a PhysicsWorld_scheme"
  assumes "mass b \<noteq> 0" and "ctype (collider b) = capsule" and "staticColliders w = []"
    and "\<not> vy (position b) < - 20" and "0 \<le> vy (csize (collider b))"
  shows "mass (simulate_body w sd b) \<noteq> 0 \<and> collider (simulate_body w sd b) = collider b
       \<and> \<not> vy (position (simulate_body w sd b)) < - 20
       \<and> vx (velocity (simulate_body w sd b))
           = vx (velocity b) * (if isGrounded b then 0.95 else 0.99)
       \<and> vz (velocity (simulate_body w sd b))
           = vz (velocity b) * (if isGrounded b then 0.95 else 0.99)"
proof -
  have i: "mass (integrate sd b) = mass b" "collider (integrate sd b) = collider b"
    by (simp_all add: integrate_def Let_def)
  have s: "simulate_body w sd b
             = capsuleFloor (vy (csize (collider b)) / 2) ((integrate sd b)\<lparr>isGrounded := False\<rparr>)"
    using assms by (simp add: simulate_body_def Let_def i resolveCapsule_def)
  show ?thesis
    unfolding s using assms(1,5)
    by (simp add: capsuleFloor_def i velocity_integrate multiplyScalar_def addScaledVector_def
          GRAVITY_def Vector3_def)
qed

lemma capsule_open_step:
  fixes w :: "'a PhysicsWorld_scheme"
  assumes "mass b \<noteq> 0" and "ctype (collider b) = capsule" and "staticColliders w = []"
    and "\<not> vy (position b) < - 20" and "0 \<le> vy (csize (collider b))"
  shows "\<exists>k2 k3 k4. {k2, k3, k4} \<subseteq> {0.95, 0.99 :: real}
           \<and> vx (velocity ((simulate_body w sd ^^ 4) b))
               = vx (velocity b) * (if isGrounded b then 0.95 else 0.99) * k2 * k3 * k4
           \<and> vz (velocity ((simulate_body w sd ^^ 4) b))
               = vz (velocity b) * (if isGrounded b then 0.95 else 0.99) * k2 * k3 * k4"
proof -
  let ?f = "simulate_body w sd"
  let ?k = "\<lambda>x. if isGrounded x then 0.95 else (0.99 :: real)"
  let ?P = "\<lambda>x. mass x \<noteq> 0 \<and> ctype (collider x) = capsule \<and> \<not> vy (position x) < - 20
                \<and> 0 \<le> vy (csize (collider x))"
  have one: "?P (?f x) \<and> vx (velocity (?f x)) = vx (velocity x) * ?k x
                       \<and> vz (velocity (?f x)) = vz (velocity x) * ?k x" if "?P x" for x
    using capsule_open_substep [of x w sd] that assms(3) by simp
  have 0: "?P b" using assms by simp
  note 1 = one [OF 0]
  note 2 = one [OF 1 [THEN conjunct1]]
  note 3 = one [OF 2 [THEN conjunct1]]
  note 4 = one [OF 3 [THEN conjunct1]]
  have e: "(?f ^^ 4) b = ?f (?f (?f (?f b)))" by (rule funpow_4)
  have x: "vx (velocity ((?f ^^ 4) b))
             = vx (velocity b) * ?k b * ?k (?f b) * ?k (?f (?f b)) * ?k (?f (?f (?f b)))"
    unfolding e using 1 2 3 4 by (simp only: mult.assoc)
  have z: "vz (velocity ((?f ^^ 4) b))
             = vz (velocity b) * ?k b * ?k (?f b) * ?k (?f (?f b)) * ?k (?f (?f (?f b)))"
    unfolding e using 1 2 3 4 by (simp only: mult.assoc)
  have "{?k (?f b), ?k (?f (?f b)), ?k (?f (?f (?f b)))} \<subseteq> {0.95, 0.99 :: real}" by simp
  with x z show ?thesis by blast
qed

text \<open>A grounded player sliding on the ground plane, computed through: every sub-step leaves
  it grounded, so a whole step multiplies the horizontal velocity by \<open>0.95\<close> four times.\<close>

lemma simulate_body_grounded_player:
  "0 < sd \<Longrightarrow> simulate_body \<lparr>bodies = bs, staticColliders = []\<rparr> sd
     ((Player_body (Vector3 a (17 / 20) 0))\<lparr>velocity := Vector3 u 0 0, isGrounded := True\<rparr>)
   = (Player_body (Vector3 (a + u * (19 / 20) * sd) (17 / 20) 0))
       \<lparr>velocity := Vector3 (u * (19 / 20)) 0 0, isGrounded := True\<rparr>"
  by (simp add: simulate_body_def Player_body_def integrate_def resolveCapsule_def capsuleFloor_def
        Let_def Vector3_def addScaledVector_def multiplyScalar_def GRAVITY_def length_vec_def)

lemma step_grounded_player:
  "vx (velocity (bodies (step \<lparr>bodies = [(Player_body (Vector3 0 (17 / 20) 0))
        \<lparr>velocity := Vector3 2 0 0, isGrounded := True\<rparr>], staticColliders = []\<rparr> (1 / 60)) ! 0))
     = 2 * (19 / 20) ^ 4"
proof -
  let ?w = "\<lparr>bodies = [(Player_body (Vector3 0 (17 / 20) 0))
        \<lparr>velocity := Vector3 2 0 0, isGrounded := True\<rparr>], staticColliders = []\<rparr>"
  let ?f = "simulate_body ?w (1 / 60 / 4)"
  let ?P = "\<lambda>a u. (Player_body (Vector3 a (17 / 20) 0))\<lparr>velocity := Vector3 u 0 0, isGrounded := True\<rparr>"
  have s: "?f (?P a u) = ?P (a + u * (19 / 20) * (1 / 60 / 4)) (u * (19 / 20))" for a u
    by (rule simulate_body_grounded_player) simp
  have "(?f ^^ 4) (?P 0 2) = ?f (?f (?f (?f (?P 0 2))))" by (rule funpow_4)
  also have "\<dots> = ?P (0 + 2 * (19 / 20) * (1 / 60 / 4) + 2 * (19 / 20) * (19 / 20) * (1 / 60 / 4)
                     + 2 * (19 / 20) * (19 / 20) * (19 / 20) * (1 / 60 / 4)
                     + 2 * (19 / 20) * (19 / 20) * (19 / 20) * (19 / 20) * (1 / 60 / 4))
                  (2 * (19 / 20) * (19 / 20) * (19 / 20) * (19 / 20))"
    by (simp only: s)
  finally have "velocity ((?f ^^ 4) (?P 0 2)) = Vector3 (2 * (19 / 20) * (19 / 20) * (19 / 20) * (19 / 20)) 0 0"
    by simp
  then have "vx (velocity ((?f ^^ 4) (?P 0 2))) = 2 * (19 / 20) ^ 4"
    by (simp add: Vector3_def eval_nat_numeral)
  then show ?thesis
    by (simp add: bodies_step del: funpow.simps)
qed

text \<open>A body standing on the ground plane of a world without static boxes, sliding: the
  capsule comes out of a sub-step grounded, the box does not, and the box loses the bounce
  friction on top of the damping.\<close>

lemma capsule_ground_substep:
  fixes w :: "'a PhysicsWorld_scheme"
  assumes sd: "0 < sd" and open_world: "staticColliders w = []"
    and inv: "mass b \<noteq> 0 \<and> ctype (collider b) = capsule \<and> 0 < vy (csize (collider b))
              \<and> vy (position b) = vy (csize (collider b)) / 2 \<and> vy (velocity b) < 25 * sd"
  shows "(mass (simulate_body w sd b) \<noteq> 0 \<and> ctype (collider (simulate_body w sd b)) = capsule
          \<and> 0 < vy (csize (collider (simulate_body w sd b)))
          \<and> vy (position (simulate_body w sd b)) = vy (csize (collider (simulate_body w sd b))) / 2
          \<and> vy (velocity (simulate_body w sd b)) < 25 * sd)
         \<and> isGrounded (simulate_body w sd b)
         \<and> vy (position (simulate_body w sd b)) = vy (position b)
         \<and> vx (velocity (simulate_body w sd b))
             = vx (velocity b) * (if isGrounded b then 0.95 else 0.99)
         \<and> vz (velocity (simulate_body w sd b))
             = vz (velocity b) * (if isGrounded b then 0.95 else 0.99)"
proof -
  let ?k = "if isGrounded b then 0.95 else (0.99::real)"
  let ?u = "(vy (velocity b) - 25 * sd) * ?k"
  let ?h = "vy (csize (collider b)) / 2"
  have i: "mass (integrate sd b) = mass b" "collider (integrate sd b) = collider b"
    by (simp_all add: integrate_def Let_def)
  have s: "simulate_body w sd b = capsuleFloor ?h ((integrate sd b)\<lparr>isGrounded := False\<rparr>)"
    using inv open_world by (simp add: simulate_body_def Let_def i resolveCapsule_def)
  have vy1: "vy (velocity (integrate sd b)) = ?u"
    by (simp add: velocity_integrate multiplyScalar_def addScaledVector_def GRAVITY_def Vector3_def)
  have vx1: "vx (velocity (integrate sd b)) = vx (velocity b) * ?k"
    "vz (velocity (integrate sd b)) = vz (velocity b) * ?k"
    by (simp_all add: velocity_integrate multiplyScalar_def addScaledVector_def GRAVITY_def Vector3_def)
  have py1: "vy (position (integrate sd b)) = ?h + ?u * sd"
    using inv unfolding position_integrate by (simp only: addScaledVector_def vy1) simp
  have neg': "?u < 0" using inv by (simp add: mult_neg_pos)
  then have neg: "?u * sd < 0" using sd by (rule mult_neg_pos)
  then have low: "vy (position (integrate sd b)) < ?h"
    unfolding py1 by (simp only: add_less_same_cancel1)
  have f: "capsuleFloor ?h ((integrate sd b)\<lparr>isGrounded := False\<rparr>)
             = (integrate sd b)\<lparr>position := (position (integrate sd b))\<lparr>vy := ?h\<rparr>,
                 velocity := (velocity (integrate sd b))\<lparr>vy := 0\<rparr>, isGrounded := True\<rparr>"
    using low neg' by (simp add: capsuleFloor_def vy1)
  show ?thesis
    unfolding s f using inv sd by (simp add: i vx1)
qed

lemma capsule_ground_step:
  fixes w :: "'a PhysicsWorld_scheme"
  assumes sd: "0 < sd" and open_world: "staticColliders w = []"
    and inv: "mass b \<noteq> 0 \<and> ctype (collider b) = capsule \<and> 0 < vy (csize (collider b))
              \<and> vy (position b) = vy (csize (collider b)) / 2 \<and> vy (velocity b) < 25 * sd"
  shows "isGrounded ((simulate_body w sd ^^ 4) b)
       \<and> vy (position ((simulate_body w sd ^^ 4) b)) = vy (position b)
       \<and> vx (velocity ((simulate_body w sd ^^ 4) b))
           = vx (velocity b) * (if isGrounded b then 0.95 else 0.99) * 0.95 * 0.95 * 0.95
       \<and> vz (velocity ((simulate_body w sd ^^ 4) b))
           = vz (velocity b) * (if isGrounded b then 0.95 else 0.99) * 0.95 * 0.95 * 0.95"
proof -
  let ?f = "simulate_body w sd"
  note 1 = capsule_ground_substep [OF sd open_world inv]
  note 2 = capsule_ground_substep [OF sd open_world 1 [THEN conjunct1]]
  note 3 = capsule_ground_substep [OF sd open_world 2 [THEN conjunct1]]
  note 4 = capsule_ground_substep [OF sd open_world 3 [THEN conjunct1]]
  have e: "(?f ^^ 4) b = ?f (?f (?f (?f b)))" by (rule funpow_4)
  show ?thesis
    unfolding e using 1 [THEN conjunct2] 2 [THEN conjunct2] 3 [THEN conjunct2] 4 [THEN conjunct2]
    by simp
qed

lemma box_ground_substep:
  fixes w :: "'a PhysicsWorld_scheme"
  assumes sd: "0 < sd" and open_world: "staticColliders w = []"
    and inv: "mass b \<noteq> 0 \<and> ctype (collider b) = box \<and> 0 < vy (csize (collider b))
              \<and> vy (position b) = vy (csize (collider b))
              \<and> 0 \<le> vy (velocity b) \<and> vy (velocity b) < 25 * sd"
  shows "(mass (simulate_body w sd b) \<noteq> 0 \<and> ctype (collider (simulate_body w sd b)) = box
          \<and> 0 < vy (csize (collider (simulate_body w sd b)))
          \<and> vy (position (simulate_body w sd b)) = vy (csize (collider (simulate_body w sd b)))
          \<and> 0 \<le> vy (velocity (simulate_body w sd b))
          \<and> vy (velocity (simulate_body w sd b)) < 25 * sd)
         \<and> \<not> isGrounded (simulate_body w sd b)
         \<and> vy (position (simulate_body w sd b)) = vy (position b)
         \<and> vx (velocity (simulate_body w sd b))
             = vx (velocity b) * (if isGrounded b then 0.95 else 0.99) * 0.99
         \<and> vz (velocity (simulate_body w sd b))
             = vz (velocity b) * (if isGrounded b then 0.95 else 0.99) * 0.99"
proof -
  let ?k = "if isGrounded b then 0.95 else (0.99::real)"
  let ?u = "(vy (velocity b) - 25 * sd) * ?k"
  let ?h = "vy (csize (collider b))"
  have i: "mass (integrate sd b) = mass b" "collider (integrate sd b) = collider b"
    by (simp_all add: integrate_def Let_def)
  have s: "simulate_body w sd b = boxGround ?h ((integrate sd b)\<lparr>isGrounded := False\<rparr>)"
    using inv open_world by (simp add: simulate_body_def Let_def i resolveBox_def)
  have vy1: "vy (velocity (integrate sd b)) = ?u"
    by (simp add: velocity_integrate multiplyScalar_def addScaledVector_def GRAVITY_def Vector3_def)
  have vx1: "vx (velocity (integrate sd b)) = vx (velocity b) * ?k"
    "vz (velocity (integrate sd b)) = vz (velocity b) * ?k"
    by (simp_all add: velocity_integrate multiplyScalar_def addScaledVector_def GRAVITY_def Vector3_def)
  have py1: "vy (position (integrate sd b)) = ?h + ?u * sd"
    using inv unfolding position_integrate by (simp only: addScaledVector_def vy1) simp
  have neg': "?u < 0" using inv by (simp add: mult_neg_pos)
  then have neg: "?u * sd < 0" using sd by (rule mult_neg_pos)
  then have low: "vy (position (integrate sd b)) < ?h"
    unfolding py1 by (simp only: add_less_same_cancel1)
  have f: "boxGround ?h ((integrate sd b)\<lparr>isGrounded := False\<rparr>)
             = (integrate sd b)\<lparr>position := (position (integrate sd b))\<lparr>vy := ?h\<rparr>,
                 velocity := \<lparr>vx = vx (velocity b) * ?k * 0.99, vy = ?u * (- 0.3),
                              vz = vz (velocity b) * ?k * 0.99\<rparr>,
                 isGrounded := False\<rparr>"
    using low neg' by (simp add: boxGround_def Let_def vy1 vx1)
  have up: "0 \<le> ?u * (- 0.3)" using neg' by simp
  have small: "?u * (- 0.3) < 25 * sd"
  proof -
    have "- ?u \<le> 25 * sd" using inv sd by (auto simp: algebra_simps)
    then have "0.3 * (- ?u) \<le> 0.3 * (25 * sd)" by simp
    also have "\<dots> < 25 * sd" using sd by simp
    finally show ?thesis by simp
  qed
  show ?thesis
    unfolding s f using inv up small by (simp add: i)
qed

lemma box_ground_step:
  fixes w :: "'a PhysicsWorld_scheme"
  assumes sd: "0 < sd" and open_world: "staticColliders w = []"
    and inv: "mass b \<noteq> 0 \<and> ctype (collider b) = box \<and> 0 < vy (csize (collider b))
              \<and> vy (position b) = vy (csize (collider b))
              \<and> 0 \<le> vy (velocity b) \<and> vy (velocity b) < 25 * sd"
  shows "\<not> isGrounded ((simulate_body w sd ^^ 4) b)
       \<and> vy (position ((simulate_body w sd ^^ 4) b)) = vy (position b)
       \<and> vx (velocity ((simulate_body w sd ^^ 4) b))
           = vx (velocity b) * (if isGrounded b then 0.95 else 0.99) * 0.99
               * (0.99 * 0.99) * (0.99 * 0.99) * (0.99 * 0.99)
       \<and> vz (velocity ((simulate_body w sd ^^ 4) b))
           = vz (velocity b) * (if isGrounded b then 0.95 else 0.99) * 0.99
               * (0.99 * 0.99) * (0.99 * 0.99) * (0.99 * 0.99)"
proof -
  let ?f = "simulate_body w sd"
  note 1 = box_ground_substep [OF sd open_world inv]
  note 2 = box_ground_substep [OF sd open_world 1 [THEN conjunct1]]
  note 3 = box_ground_substep [OF sd open_world 2 [THEN conjunct1]]
  note 4 = box_ground_substep [OF sd open_world 3 [THEN conjunct1]]
  have e: "(?f ^^ 4) b = ?f (?f (?f (?f b)))" by (rule funpow_4)
  show ?thesis
    unfolding e using 1 [THEN conjunct2] 2 [THEN conjunct2] 3 [THEN conjunct2] 4 [THEN conjunct2]
    by simp
qed

text \<open>
  Claim C3. A call \<open>step(dt)\<close> runs four sub-steps of \<open>dt / 4\<close> on every body. In a sub-step
  of length \<open>sd\<close>, a dynamic body above the void threshold is integrated and then resolved.
  The integration multiplies the linear velocity, after gravity, by \<open>0.95\<close> when the body
  enters the sub-step with its grounded flag set and by \<open>0.99\<close> when it does not, whatever
  \<open>sd\<close> is, and moves the position by that velocity; the angular velocity is multiplied by
  \<open>1 - 2 * sd\<close>, and no resolver changes it. For a capsule in a world without static boxes
  the horizontal velocity after the sub-step is the old one times \<open>0.95\<close> or \<open>0.99\<close>, and
  after the whole call it is the old one times four such factors, the first of them chosen
  by the flag the body enters with.

  The factor follows the flag, and only the capsule resolver sets the flag. A capsule standing
  on the ground plane comes out of every sub-step grounded: a call multiplies its horizontal
  velocity by the factor of the flag it enters with and then three times by \<open>0.95\<close>. A box
  standing on the ground plane comes out of every sub-step with the flag down, since
  \<^verbatim>\<open>resolveBox\<close> never sets it: a sub-step multiplies its horizontal velocity by the
  entering factor and by the bounce friction \<open>0.99\<close>, and a call by these two and then three
  times by \<open>0.99 * 0.99\<close>. A vehicle on the ground is damped at the airborne rate.
\<close>

theorem simulate_damping:
  fixes w :: "'a PhysicsWorld_scheme"
  assumes dyn: "mass b \<noteq> 0" and novoid: "\<not> vy (position b) < - 20"
  shows "bodies (step w dt) = map ((simulate_body w (dt / 4)) ^^ 4) (bodies w)
       \<and> simulate_body w sd b
           = (if ctype (collider b) = capsule then resolveCapsule w else resolveBox w)
               ((integrate sd b)\<lparr>isGrounded := False\<rparr>)
       \<and> velocity (integrate sd b)
           = multiplyScalar (addScaledVector (velocity b) GRAVITY sd)
               (if isGrounded b then 0.95 else 0.99)
       \<and> position (integrate sd b) = addScaledVector (position b) (velocity (integrate sd b)) sd
       \<and> angularVelocity (simulate_body w sd b) = multiplyScalar (angularVelocity b) (1 - 2 * sd)
       \<and> (ctype (collider b) = capsule \<and> staticColliders w = [] \<longrightarrow>
           vx (velocity (simulate_body w sd b))
             = vx (velocity b) * (if isGrounded b then 0.95 else 0.99)
           \<and> vz (velocity (simulate_body w sd b))
             = vz (velocity b) * (if isGrounded b then 0.95 else 0.99))
       \<and> (ctype (collider b) = capsule \<and> staticColliders w = [] \<and> 0 \<le> vy (csize (collider b))
            \<and> i < length (bodies w) \<and> bodies w ! i = b \<longrightarrow>
           (\<exists>k2 k3 k4. {k2, k3, k4} \<subseteq> {0.95, 0.99 :: real}
              \<and> vx (velocity (bodies (step w dt) ! i))
                  = vx (velocity b) * (if isGrounded b then 0.95 else 0.99) * k2 * k3 * k4
              \<and> vz (velocity (bodies (step w dt) ! i))
                  = vz (velocity b) * (if isGrounded b then 0.95 else 0.99) * k2 * k3 * k4))
       \<and> (ctype (collider b) = capsule \<and> staticColliders w = [] \<and> 0 < dt
            \<and> 0 < vy (csize (collider b)) \<and> vy (position b) = vy (csize (collider b)) / 2
            \<and> vy (velocity b) < 25 * (dt / 4) \<and> i < length (bodies w) \<and> bodies w ! i = b \<longrightarrow>
           isGrounded (simulate_body w (dt / 4) b)
           \<and> isGrounded (bodies (step w dt) ! i)
           \<and> vy (position (bodies (step w dt) ! i)) = vy (position b)
           \<and> vx (velocity (bodies (step w dt) ! i))
               = vx (velocity b) * (if isGrounded b then 0.95 else 0.99) * 0.95 * 0.95 * 0.95
           \<and> vz (velocity (bodies (step w dt) ! i))
               = vz (velocity b) * (if isGrounded b then 0.95 else 0.99) * 0.95 * 0.95 * 0.95)
       \<and> (ctype (collider b) = box \<and> staticColliders w = [] \<and> 0 < dt
            \<and> 0 < vy (csize (collider b)) \<and> vy (position b) = vy (csize (collider b))
            \<and> 0 \<le> vy (velocity b) \<and> vy (velocity b) < 25 * (dt / 4)
            \<and> i < length (bodies w) \<and> bodies w ! i = b \<longrightarrow>
           \<not> isGrounded (simulate_body w (dt / 4) b)
           \<and> vx (velocity (simulate_body w (dt / 4) b))
               = vx (velocity b) * (if isGrounded b then 0.95 else 0.99) * 0.99
           \<and> \<not> isGrounded (bodies (step w dt) ! i)
           \<and> vy (position (bodies (step w dt) ! i)) = vy (position b)
           \<and> vx (velocity (bodies (step w dt) ! i))
               = vx (velocity b) * (if isGrounded b then 0.95 else 0.99) * 0.99
                   * (0.99 * 0.99) * (0.99 * 0.99) * (0.99 * 0.99)
           \<and> vz (velocity (bodies (step w dt) ! i))
               = vz (velocity b) * (if isGrounded b then 0.95 else 0.99) * 0.99
                   * (0.99 * 0.99) * (0.99 * 0.99) * (0.99 * 0.99))"
proof (intro conjI)
  show "bodies (step w dt) = map ((simulate_body w (dt / 4)) ^^ 4) (bodies w)"
    by (rule bodies_step)
  have c: "collider (integrate sd b) = collider b" by (simp add: integrate_def Let_def)
  show s: "simulate_body w sd b
           = (if ctype (collider b) = capsule then resolveCapsule w else resolveBox w)
               ((integrate sd b)\<lparr>isGrounded := False\<rparr>)"
    using dyn novoid by (simp add: simulate_body_def Let_def c)
  show "velocity (integrate sd b)
           = multiplyScalar (addScaledVector (velocity b) GRAVITY sd)
               (if isGrounded b then 0.95 else 0.99)"
    by (rule velocity_integrate)
  show "position (integrate sd b) = addScaledVector (position b) (velocity (integrate sd b)) sd"
    by (rule position_integrate)
  show "angularVelocity (simulate_body w sd b) = multiplyScalar (angularVelocity b) (1 - 2 * sd)"
    unfolding s by (simp add: angularVelocity_integrate)
  show "ctype (collider b) = capsule \<and> staticColliders w = [] \<longrightarrow>
           vx (velocity (simulate_body w sd b))
             = vx (velocity b) * (if isGrounded b then 0.95 else 0.99)
           \<and> vz (velocity (simulate_body w sd b))
             = vz (velocity b) * (if isGrounded b then 0.95 else 0.99)"
    unfolding s
    by (simp add: resolveCapsule_def Let_def capsuleFloor_def velocity_integrate
          multiplyScalar_def addScaledVector_def GRAVITY_def Vector3_def)
  show "ctype (collider b) = capsule \<and> staticColliders w = [] \<and> 0 \<le> vy (csize (collider b))
            \<and> i < length (bodies w) \<and> bodies w ! i = b \<longrightarrow>
           (\<exists>k2 k3 k4. {k2, k3, k4} \<subseteq> {0.95, 0.99 :: real}
              \<and> vx (velocity (bodies (step w dt) ! i))
                  = vx (velocity b) * (if isGrounded b then 0.95 else 0.99) * k2 * k3 * k4
              \<and> vz (velocity (bodies (step w dt) ! i))
                  = vz (velocity b) * (if isGrounded b then 0.95 else 0.99) * k2 * k3 * k4)"
  proof
    assume a: "ctype (collider b) = capsule \<and> staticColliders w = [] \<and> 0 \<le> vy (csize (collider b))
            \<and> i < length (bodies w) \<and> bodies w ! i = b"
    then have "bodies (step w dt) ! i = (simulate_body w (dt / 4) ^^ 4) b"
      by (simp add: bodies_step del: funpow.simps)
    then show "\<exists>k2 k3 k4. {k2, k3, k4} \<subseteq> {0.95, 0.99 :: real}
              \<and> vx (velocity (bodies (step w dt) ! i))
                  = vx (velocity b) * (if isGrounded b then 0.95 else 0.99) * k2 * k3 * k4
              \<and> vz (velocity (bodies (step w dt) ! i))
                  = vz (velocity b) * (if isGrounded b then 0.95 else 0.99) * k2 * k3 * k4"
      using capsule_open_step [OF dyn _ _ novoid, of w "dt / 4"] a by simp
  qed
  show "ctype (collider b) = capsule \<and> staticColliders w = [] \<and> 0 < dt
            \<and> 0 < vy (csize (collider b)) \<and> vy (position b) = vy (csize (collider b)) / 2
            \<and> vy (velocity b) < 25 * (dt / 4) \<and> i < length (bodies w) \<and> bodies w ! i = b \<longrightarrow>
           isGrounded (simulate_body w (dt / 4) b)
           \<and> isGrounded (bodies (step w dt) ! i)
           \<and> vy (position (bodies (step w dt) ! i)) = vy (position b)
           \<and> vx (velocity (bodies (step w dt) ! i))
               = vx (velocity b) * (if isGrounded b then 0.95 else 0.99) * 0.95 * 0.95 * 0.95
           \<and> vz (velocity (bodies (step w dt) ! i))
               = vz (velocity b) * (if isGrounded b then 0.95 else 0.99) * 0.95 * 0.95 * 0.95"
  proof
    assume a: "ctype (collider b) = capsule \<and> staticColliders w = [] \<and> 0 < dt
            \<and> 0 < vy (csize (collider b)) \<and> vy (position b) = vy (csize (collider b)) / 2
            \<and> vy (velocity b) < 25 * (dt / 4) \<and> i < length (bodies w) \<and> bodies w ! i = b"
    then have st: "bodies (step w dt) ! i = (simulate_body w (dt / 4) ^^ 4) b"
      by (simp add: bodies_step del: funpow.simps)
    have sd: "0 < dt / 4" and ow: "staticColliders w = []" using a by simp_all
    have inv: "mass b \<noteq> 0 \<and> ctype (collider b) = capsule \<and> 0 < vy (csize (collider b))
              \<and> vy (position b) = vy (csize (collider b)) / 2 \<and> vy (velocity b) < 25 * (dt / 4)"
      using a dyn by simp
    show "isGrounded (simulate_body w (dt / 4) b)
           \<and> isGrounded (bodies (step w dt) ! i)
           \<and> vy (position (bodies (step w dt) ! i)) = vy (position b)
           \<and> vx (velocity (bodies (step w dt) ! i))
               = vx (velocity b) * (if isGrounded b then 0.95 else 0.99) * 0.95 * 0.95 * 0.95
           \<and> vz (velocity (bodies (step w dt) ! i))
               = vz (velocity b) * (if isGrounded b then 0.95 else 0.99) * 0.95 * 0.95 * 0.95"
      unfolding st
      using capsule_ground_substep [OF sd ow inv] capsule_ground_step [OF sd ow inv]
      by (simp only: simp_thms)
  qed
  show "ctype (collider b) = box \<and> staticColliders w = [] \<and> 0 < dt
            \<and> 0 < vy (csize (collider b)) \<and> vy (position b) = vy (csize (collider b))
            \<and> 0 \<le> vy (velocity b) \<and> vy (velocity b) < 25 * (dt / 4)
            \<and> i < length (bodies w) \<and> bodies w ! i = b \<longrightarrow>
           \<not> isGrounded (simulate_body w (dt / 4) b)
           \<and> vx (velocity (simulate_body w (dt / 4) b))
               = vx (velocity b) * (if isGrounded b then 0.95 else 0.99) * 0.99
           \<and> \<not> isGrounded (bodies (step w dt) ! i)
           \<and> vy (position (bodies (step w dt) ! i)) = vy (position b)
           \<and> vx (velocity (bodies (step w dt) ! i))
               = vx (velocity b) * (if isGrounded b then 0.95 else 0.99) * 0.99
                   * (0.99 * 0.99) * (0.99 * 0.99) * (0.99 * 0.99)
           \<and> vz (velocity (bodies (step w dt) ! i))
               = vz (velocity b) * (if isGrounded b then 0.95 else 0.99) * 0.99
                   * (0.99 * 0.99) * (0.99 * 0.99) * (0.99 * 0.99)"
  proof
    assume a: "ctype (collider b) = box \<and> staticColliders w = [] \<and> 0 < dt
            \<and> 0 < vy (csize (collider b)) \<and> vy (position b) = vy (csize (collider b))
            \<and> 0 \<le> vy (velocity b) \<and> vy (velocity b) < 25 * (dt / 4)
            \<and> i < length (bodies w) \<and> bodies w ! i = b"
    then have st: "bodies (step w dt) ! i = (simulate_body w (dt / 4) ^^ 4) b"
      by (simp add: bodies_step del: funpow.simps)
    have sd: "0 < dt / 4" and ow: "staticColliders w = []" using a by simp_all
    have inv: "mass b \<noteq> 0 \<and> ctype (collider b) = box \<and> 0 < vy (csize (collider b))
              \<and> vy (position b) = vy (csize (collider b))
              \<and> 0 \<le> vy (velocity b) \<and> vy (velocity b) < 25 * (dt / 4)"
      using a dyn by simp
    show "\<not> isGrounded (simulate_body w (dt / 4) b)
           \<and> vx (velocity (simulate_body w (dt / 4) b))
               = vx (velocity b) * (if isGrounded b then 0.95 else 0.99) * 0.99
           \<and> \<not> isGrounded (bodies (step w dt) ! i)
           \<and> vy (position (bodies (step w dt) ! i)) = vy (position b)
           \<and> vx (velocity (bodies (step w dt) ! i))
               = vx (velocity b) * (if isGrounded b then 0.95 else 0.99) * 0.99
                   * (0.99 * 0.99) * (0.99 * 0.99) * (0.99 * 0.99)
           \<and> vz (velocity (bodies (step w dt) ! i))
               = vz (velocity b) * (if isGrounded b then 0.95 else 0.99) * 0.99
                   * (0.99 * 0.99) * (0.99 * 0.99) * (0.99 * 0.99)"
      unfolding st
      using box_ground_substep [OF sd ow inv] box_ground_step [OF sd ow inv]
      by (simp only: simp_thms)
  qed
qed

theorem simulate_damping_witness:
  "mass ((Player_body (Vector3 0 5 0))\<lparr>velocity := Vector3 2 0 0, angularVelocity := Vector3 0 1 0\<rparr>) \<noteq> 0
   \<and> \<not> vy (position ((Player_body (Vector3 0 5 0))
            \<lparr>velocity := Vector3 2 0 0, angularVelocity := Vector3 0 1 0\<rparr>)) < - 20
   \<and> vx (velocity (simulate_body \<lparr>bodies = [], staticColliders = []\<rparr> (1 / 240)
         ((Player_body (Vector3 0 5 0))\<lparr>velocity := Vector3 2 0 0, angularVelocity := Vector3 0 1 0\<rparr>)))
       = 99 / 50
   \<and> angularVelocity (simulate_body \<lparr>bodies = [], staticColliders = []\<rparr> (1 / 240)
         ((Player_body (Vector3 0 5 0))\<lparr>velocity := Vector3 2 0 0, angularVelocity := Vector3 0 1 0\<rparr>))
       = Vector3 0 (119 / 120) 0
   \<and> vx (velocity (simulate_body \<lparr>bodies = [], staticColliders = []\<rparr> (1 / 240)
         ((Player_body (Vector3 0 (17 / 20) 0))\<lparr>velocity := Vector3 2 0 0, isGrounded := True\<rparr>)))
       = 19 / 10
   \<and> vx (velocity (bodies (step \<lparr>bodies = [(Player_body (Vector3 0 (17 / 20) 0))
            \<lparr>velocity := Vector3 2 0 0, isGrounded := True\<rparr>], staticColliders = []\<rparr> (1 / 60)) ! 0))
       = 2 * (19 / 20) ^ 4
   \<and> (\<exists>k2 k3 k4. {k2, k3, k4} \<subseteq> {0.95, 0.99 :: real}
        \<and> vx (velocity (bodies (step \<lparr>bodies = [(Player_body (Vector3 0 (17 / 20) 0))
            \<lparr>velocity := Vector3 2 0 0, isGrounded := True\<rparr>], staticColliders = []\<rparr> (1 / 60)) ! 0))
            = 2 * (19 / 20) * k2 * k3 * k4)
   \<and> isGrounded (bodies (step \<lparr>bodies = [(Player_body (Vector3 0 (17 / 20) 0))
            \<lparr>velocity := Vector3 2 0 0\<rparr>], staticColliders = []\<rparr> (1 / 60)) ! 0)
   \<and> vx (velocity (bodies (step \<lparr>bodies = [(Player_body (Vector3 0 (17 / 20) 0))
            \<lparr>velocity := Vector3 2 0 0\<rparr>], staticColliders = []\<rparr> (1 / 60)) ! 0))
       = 2 * (99 / 100) * (19 / 20) * (19 / 20) * (19 / 20)
   \<and> \<not> isGrounded (bodies (step \<lparr>bodies = [(Car_body (Vector3 10 (3 / 5) 10) CAR_SPORT)
            \<lparr>velocity := Vector3 2 0 0\<rparr>], staticColliders = []\<rparr> (1 / 60)) ! 0)
   \<and> vx (velocity (bodies (step \<lparr>bodies = [(Car_body (Vector3 10 (3 / 5) 10) CAR_SPORT)
            \<lparr>velocity := Vector3 2 0 0\<rparr>], staticColliders = []\<rparr> (1 / 60)) ! 0))
       = 2 * (19 / 20) * (99 / 100) * (99 / 100 * (99 / 100)) * (99 / 100 * (99 / 100))
           * (99 / 100 * (99 / 100))
   \<and> vx (velocity (bodies (step \<lparr>bodies = [(Car_body (Vector3 10 (3 / 5) 10) CAR_SPORT)
            \<lparr>velocity := Vector3 2 0 0, isGrounded := False\<rparr>], staticColliders = []\<rparr> (1 / 60)) ! 0))
       = 2 * (99 / 100) * (99 / 100) * (99 / 100 * (99 / 100)) * (99 / 100 * (99 / 100))
           * (99 / 100 * (99 / 100))"
proof -
  let ?p = "(Player_body (Vector3 0 (17 / 20) 0))\<lparr>velocity := Vector3 2 0 0\<rparr>"
  let ?wp = "\<lparr>bodies = [?p], staticColliders = []\<rparr>"
  let ?c = "(Car_body (Vector3 10 (3 / 5) 10) CAR_SPORT)\<lparr>velocity := Vector3 2 0 0\<rparr>"
  let ?wc = "\<lparr>bodies = [?c], staticColliders = []\<rparr>"
  let ?d = "(Car_body (Vector3 10 (3 / 5) 10) CAR_SPORT)\<lparr>velocity := Vector3 2 0 0, isGrounded := False\<rparr>"
  let ?wd = "\<lparr>bodies = [?d], staticColliders = []\<rparr>"
  have p: "mass ?p \<noteq> 0" "\<not> vy (position ?p) < - 20"
    and c: "mass ?c \<noteq> 0" "\<not> vy (position ?c) < - 20"
    and d: "mass ?d \<noteq> 0" "\<not> vy (position ?d) < - 20"
    by (simp_all add: Player_body_def Car_body_def CAR_SPORT_def Vector3_def)
  have 6: "isGrounded (bodies (step ?wp (1 / 60)) ! 0)
     \<and> vx (velocity (bodies (step ?wp (1 / 60)) ! 0))
         = 2 * (99 / 100) * (19 / 20) * (19 / 20) * (19 / 20)"
    using simulate_damping [OF p, of ?wp "1 / 60" "1 / 240" 0, THEN conjunct2, THEN conjunct2,
        THEN conjunct2, THEN conjunct2, THEN conjunct2, THEN conjunct2, THEN conjunct2,
        THEN conjunct1]
    by (simp add: Player_body_def Vector3_def)
  have 7: "\<not> isGrounded (bodies (step ?wc (1 / 60)) ! 0)
     \<and> vx (velocity (bodies (step ?wc (1 / 60)) ! 0))
         = 2 * (19 / 20) * (99 / 100) * (99 / 100 * (99 / 100)) * (99 / 100 * (99 / 100))
             * (99 / 100 * (99 / 100))"
    using simulate_damping [OF c, of ?wc "1 / 60" "1 / 240" 0, THEN conjunct2, THEN conjunct2,
        THEN conjunct2, THEN conjunct2, THEN conjunct2, THEN conjunct2, THEN conjunct2,
        THEN conjunct2]
    by (simp add: Car_body_def CAR_SPORT_def Vector3_def)
  have 8: "vx (velocity (bodies (step ?wd (1 / 60)) ! 0))
         = 2 * (99 / 100) * (99 / 100) * (99 / 100 * (99 / 100)) * (99 / 100 * (99 / 100))
             * (99 / 100 * (99 / 100))"
    using simulate_damping [OF d, of ?wd "1 / 60" "1 / 240" 0, THEN conjunct2, THEN conjunct2,
        THEN conjunct2, THEN conjunct2, THEN conjunct2, THEN conjunct2, THEN conjunct2,
        THEN conjunct2]
    by (simp add: Car_body_def CAR_SPORT_def Vector3_def)
  let ?w = "\<lparr>bodies = [], staticColliders = []\<rparr>"
  let ?a = "(Player_body (Vector3 0 5 0))\<lparr>velocity := Vector3 2 0 0, angularVelocity := Vector3 0 1 0\<rparr>"
  let ?g = "(Player_body (Vector3 0 (17 / 20) 0))\<lparr>velocity := Vector3 2 0 0, isGrounded := True\<rparr>"
  let ?wg = "\<lparr>bodies = [?g], staticColliders = []\<rparr>"
  have a: "mass ?a \<noteq> 0" "\<not> vy (position ?a) < - 20"
    and g: "mass ?g \<noteq> 0" "\<not> vy (position ?g) < - 20"
    by (simp_all add: Player_body_def Vector3_def)
  note ta = simulate_damping [OF a, of ?w 1 "1 / 240" 0]
  note tg = simulate_damping [OF g, of ?w 1 "1 / 240" 0]
  note ts = simulate_damping [OF g, of ?wg "1 / 60" "1 / 240" 0]
  have 1: "vx (velocity (simulate_body ?w (1 / 240) ?a)) = 99 / 50"
    using ta [THEN conjunct2, THEN conjunct2, THEN conjunct2, THEN conjunct2, THEN conjunct2,
              THEN conjunct1]
    by (simp add: Player_body_def Vector3_def)
  have 2: "angularVelocity (simulate_body ?w (1 / 240) ?a) = Vector3 0 (119 / 120) 0"
    using ta [THEN conjunct2, THEN conjunct2, THEN conjunct2, THEN conjunct2, THEN conjunct1]
    by (simp add: Player_body_def Vector3_def multiplyScalar_def)
  have 3: "vx (velocity (simulate_body ?w (1 / 240) ?g)) = 19 / 10"
    using tg [THEN conjunct2, THEN conjunct2, THEN conjunct2, THEN conjunct2, THEN conjunct2,
              THEN conjunct1]
    by (simp add: Player_body_def Vector3_def)
  have "ctype (collider ?g) = capsule \<and> staticColliders ?wg = [] \<and> 0 \<le> vy (csize (collider ?g))
          \<and> 0 < length (bodies ?wg) \<and> bodies ?wg ! 0 = ?g"
    by (simp add: Player_body_def Vector3_def)
  with ts [THEN conjunct2, THEN conjunct2, THEN conjunct2, THEN conjunct2, THEN conjunct2,
           THEN conjunct2]
  have "\<exists>k2 k3 k4. {k2, k3, k4} \<subseteq> {0.95, 0.99 :: real}
        \<and> vx (velocity (bodies (step ?wg (1 / 60)) ! 0))
            = vx (velocity ?g) * (if isGrounded ?g then 0.95 else 0.99) * k2 * k3 * k4
        \<and> vz (velocity (bodies (step ?wg (1 / 60)) ! 0))
            = vz (velocity ?g) * (if isGrounded ?g then 0.95 else 0.99) * k2 * k3 * k4"
    by blast
  then obtain k2 k3 k4 where k: "{k2, k3, k4} \<subseteq> {0.95, 0.99 :: real}"
    and v: "vx (velocity (bodies (step ?wg (1 / 60)) ! 0))
            = vx (velocity ?g) * (if isGrounded ?g then 0.95 else 0.99) * k2 * k3 * k4"
    by blast
  have "vx (velocity ?g) * (if isGrounded ?g then 0.95 else 0.99) = 2 * (19 / 20)"
    by (simp add: Vector3_def)
  with v have "vx (velocity (bodies (step ?wg (1 / 60)) ! 0)) = 2 * (19 / 20) * k2 * k3 * k4"
    by simp
  with k have 4: "\<exists>k2 k3 k4. {k2, k3, k4} \<subseteq> {0.95, 0.99 :: real}
        \<and> vx (velocity (bodies (step ?wg (1 / 60)) ! 0)) = 2 * (19 / 20) * k2 * k3 * k4"
    by blast
  have 5: "vx (velocity (bodies (step ?wg (1 / 60)) ! 0)) = 2 * (19 / 20) ^ 4"
    by (rule step_grounded_player)
  show ?thesis using a 1 2 3 4 5 6 7 8 by blast
qed

section \<open>Bodies at rest on the ground plane\<close>

text \<open>A capsule at rest on the ground plane, clear of the static boxes, stays where it is
  in a sub-step and comes out grounded.\<close>

lemma capsule_rest_substep:
  fixes w :: "'a PhysicsWorld_scheme"
  assumes dt: "0 < dt"
    and cap: "ctype c = capsule" and h: "0 < vy (csize c)" and y: "vy p = vy (csize c) / 2"
    and clear: "\<forall>sb\<in>set (staticColliders w). \<not> intersectsBox (setFromCenterAndSize p
                  (Vector3 (vx (csize c) * 2) (vy (csize c)) (vx (csize c) * 2))) sb"
    and rest: "mass b \<noteq> 0 \<and> position b = p \<and> collider b = c \<and> velocity b = Vector3 0 0 0"
  shows "(mass (simulate_body w dt b) \<noteq> 0 \<and> position (simulate_body w dt b) = p
          \<and> collider (simulate_body w dt b) = c \<and> velocity (simulate_body w dt b) = Vector3 0 0 0)
         \<and> isGrounded (simulate_body w dt b)"
proof -
  let ?k = "if isGrounded b then 0.95 else (0.99::real)"
  let ?b1 = "(integrate dt b)\<lparr>isGrounded := False\<rparr>"
  have v1: "velocity (integrate dt b) = Vector3 0 (- 25 * dt * ?k) 0"
    using rest by (simp add: integrate_def Let_def GRAVITY_def
        Vector3_def addScaledVector_def multiplyScalar_def)
  have p1: "position (integrate dt b) = p\<lparr>vy := vy p + (- 25 * dt * ?k) * dt\<rparr>"
    using rest by (simp add: integrate_def Let_def GRAVITY_def
        Vector3_def addScaledVector_def multiplyScalar_def)
  have c1: "collider (integrate dt b) = c" "mass (integrate dt b) = mass b"
    using rest by (simp_all add: integrate_def Let_def)
  have neg: "(- 25 * dt * ?k) * dt < 0" using dt by (simp add: mult_pos_pos)
  have neg': "- 25 * dt * ?k < 0" using dt by simp
  let ?b2 = "capsuleFloor (vy (csize c) / 2) ?b1"
  have b2: "?b2 = ?b1\<lparr>position := p, velocity := Vector3 0 0 0, isGrounded := True\<rparr>"
    using neg neg' y by (simp add: capsuleFloor_def p1 v1 Vector3_def)
  have "resolveCapsule w ?b1 = ?b2"
    unfolding resolveCapsule_def Let_def
    by (simp add: c1) (rule foldl_resolveCapsule_staticBox_miss, simp add: b2 c1 clear)
  moreover have "vy (position b) \<ge> - 20" using rest y h by simp
  ultimately have "simulate_body w dt b = ?b2"
    using rest cap c1 by (simp add: simulate_body_def Let_def)
  then show ?thesis using rest c1 by (simp add: b2)
qed

text \<open>A box at rest on the ground plane bounces in place: every sub-step pushes it below the
  plane and clamps it back, leaving a small upward velocity and the grounded flag down.\<close>

lemma box_rest_substep:
  fixes w :: "'a PhysicsWorld_scheme"
  assumes dt: "0 < dt"
    and bx: "ctype c = box" and h: "0 < vy (csize c)" and y: "vy p = vy (csize c)"
    and clear: "\<forall>sb\<in>set (staticColliders w). \<not> intersectsBox (setFromCenterAndSize p s) sb"
    and rest: "mass b \<noteq> 0 \<and> position b = p \<and> collider b = c \<and> bsize b = s
               \<and> vx (velocity b) = 0 \<and> vz (velocity b) = 0
               \<and> 0 \<le> vy (velocity b) \<and> vy (velocity b) < 25 * dt"
  shows "(mass (simulate_body w dt b) \<noteq> 0 \<and> position (simulate_body w dt b) = p
          \<and> collider (simulate_body w dt b) = c \<and> bsize (simulate_body w dt b) = s
          \<and> vx (velocity (simulate_body w dt b)) = 0 \<and> vz (velocity (simulate_body w dt b)) = 0
          \<and> 0 \<le> vy (velocity (simulate_body w dt b)) \<and> vy (velocity (simulate_body w dt b)) < 25 * dt)
         \<and> \<not> isGrounded (simulate_body w dt b)"
proof -
  let ?k = "if isGrounded b then 0.95 else (0.99::real)"
  let ?u = "(vy (velocity b) - 25 * dt) * ?k"
  let ?b1 = "(integrate dt b)\<lparr>isGrounded := False\<rparr>"
  have v1: "velocity (integrate dt b) = Vector3 0 ?u 0"
    using rest by (simp add: integrate_def Let_def GRAVITY_def
        Vector3_def addScaledVector_def multiplyScalar_def)
  have p1: "position (integrate dt b) = p\<lparr>vy := vy p + ?u * dt\<rparr>"
    using rest by (simp add: integrate_def Let_def GRAVITY_def
        Vector3_def addScaledVector_def multiplyScalar_def)
  have c1: "collider (integrate dt b) = c" "mass (integrate dt b) = mass b" "bsize (integrate dt b) = s"
    using rest by (simp_all add: integrate_def Let_def)
  have neg': "?u < 0" using rest by (simp add: mult_neg_pos)
  then have neg: "?u * dt < 0" using dt by (rule mult_neg_pos)
  let ?b2 = "boxGround (vy (csize c)) ?b1"
  have b2: "?b2 = ?b1\<lparr>position := p, velocity := Vector3 0 (?u * (- 0.3)) 0\<rparr>"
    using neg neg' y by (simp add: boxGround_def p1 v1 Vector3_def Let_def)
  have "resolveBox w ?b1 = ?b2"
    unfolding resolveBox_def Let_def
    by (simp add: c1) (rule foldl_resolveBox_staticBox_miss, simp add: b2 c1 clear)
  moreover have "vy (position b) \<ge> - 20" using rest y h by simp
  ultimately have sb: "simulate_body w dt b = ?b2"
    using rest bx c1 by (simp add: simulate_body_def Let_def)
  have "0 \<le> ?u * (- 0.3)" using neg' by simp
  moreover have "?u * (- 0.3) < 25 * dt"
  proof -
    have "- ?u \<le> 25 * dt" using rest dt by (auto simp: algebra_simps)
    then have "0.3 * (- ?u) \<le> 0.3 * (25 * dt)" by simp
    also have "\<dots> < 25 * dt" using dt by simp
    finally show ?thesis by simp
  qed
  ultimately show ?thesis using rest c1 unfolding sb b2 by (simp add: Vector3_def)
qed

text \<open>
  Claim C1. A dynamic body at rest (zero velocity) on the ground plane, clear of the static
  boxes, after one \<open>step(dt)\<close> with \<open>dt > 0\<close>. A capsule at \<open>position.y = height / 2\<close>
  stays there and is grounded. A box at \<open>position.y = halfExtent.y\<close> stays there too, but
  its grounded flag is false: \<^verbatim>\<open>simulate\<close> clears the flag and \<^verbatim>\<open>resolveBox\<close> never
  sets it.
\<close>

theorem step_resting_body:
  fixes w :: "'a PhysicsWorld_scheme"
  assumes dt: "0 < dt" and i: "i < length (bodies w)" and b: "b = bodies w ! i"
    and dyn: "0 < mass b" and still: "velocity b = Vector3 0 0 0"
    and h: "0 < vy (csize (collider b))"
  shows "(ctype (collider b) = capsule \<and> vy (position b) = vy (csize (collider b)) / 2
          \<and> (\<forall>sb\<in>set (staticColliders w). \<not> intersectsBox (setFromCenterAndSize (position b)
                 (Vector3 (vx (csize (collider b)) * 2) (vy (csize (collider b)))
                    (vx (csize (collider b)) * 2))) sb)
          \<longrightarrow> position (bodies (step w dt) ! i) = position b
              \<and> isGrounded (bodies (step w dt) ! i))
       \<and> (ctype (collider b) = box \<and> vy (position b) = vy (csize (collider b))
          \<and> (\<forall>sb\<in>set (staticColliders w).
                 \<not> intersectsBox (setFromCenterAndSize (position b) (bsize b)) sb)
          \<longrightarrow> position (bodies (step w dt) ! i) = position b
              \<and> \<not> isGrounded (bodies (step w dt) ! i))"
proof -
  let ?f = "simulate_body w (dt / 4)"
  have sd: "0 < dt / 4" using dt by simp
  have "(?f ^^ 4) b = ?f (?f (?f (?f b)))" by (simp add: eval_nat_numeral)
  then have st: "bodies (step w dt) ! i = ?f (?f (?f (?f b)))"
    using i b by (simp add: bodies_step del: funpow.simps)
  show ?thesis
  proof (intro conjI impI)
    assume a: "ctype (collider b) = capsule \<and> vy (position b) = vy (csize (collider b)) / 2
          \<and> (\<forall>sb\<in>set (staticColliders w). \<not> intersectsBox (setFromCenterAndSize (position b)
                 (Vector3 (vx (csize (collider b)) * 2) (vy (csize (collider b)))
                    (vx (csize (collider b)) * 2))) sb)"
    let ?P = "\<lambda>x. mass x \<noteq> 0 \<and> position x = position b \<and> collider x = collider b
                 \<and> velocity x = Vector3 0 0 0"
    have step1: "?P (?f x) \<and> isGrounded (?f x)" if "?P x" for x
      using capsule_rest_substep [OF sd _ h _ _ that, of w] a by blast
    have "?P b" using dyn still by simp
    then have "?P (?f b)" using step1 by blast
    then have "?P (?f (?f b))" using step1 by blast
    then have "?P (?f (?f (?f b)))" using step1 by blast
    from step1 [OF this]
    show "position (bodies (step w dt) ! i) = position b" "isGrounded (bodies (step w dt) ! i)"
      unfolding st by blast+
  next
    assume a: "ctype (collider b) = box \<and> vy (position b) = vy (csize (collider b))
          \<and> (\<forall>sb\<in>set (staticColliders w).
                 \<not> intersectsBox (setFromCenterAndSize (position b) (bsize b)) sb)"
    let ?P = "\<lambda>x. mass x \<noteq> 0 \<and> position x = position b \<and> collider x = collider b
                 \<and> bsize x = bsize b \<and> vx (velocity x) = 0 \<and> vz (velocity x) = 0
                 \<and> 0 \<le> vy (velocity x) \<and> vy (velocity x) < 25 * (dt / 4)"
    have step1: "?P (?f x) \<and> \<not> isGrounded (?f x)" if "?P x" for x
      using box_rest_substep [OF sd _ h _ _ that, of w] a by blast
    have "?P b" using dyn still dt by (simp add: Vector3_def)
    then have "?P (?f b)" using step1 by blast
    then have "?P (?f (?f b))" using step1 by blast
    then have "?P (?f (?f (?f b)))" using step1 by blast
    from step1 [OF this]
    show "position (bodies (step w dt) ! i) = position b" "\<not> isGrounded (bodies (step w dt) ! i)"
      unfolding st by blast+
  qed
qed

theorem step_resting_body_witness:
  "position (bodies (step \<lparr>bodies = [Player_body (Vector3 0 (17 / 20) 0),
                                      Car_body (Vector3 10 (3 / 5) 10) CAR_SPORT],
                            staticColliders = []\<rparr> (1 / 60)) ! 0) = Vector3 0 (17 / 20) 0
   \<and> isGrounded (bodies (step \<lparr>bodies = [Player_body (Vector3 0 (17 / 20) 0),
                                      Car_body (Vector3 10 (3 / 5) 10) CAR_SPORT],
                            staticColliders = []\<rparr> (1 / 60)) ! 0)
   \<and> position (bodies (step \<lparr>bodies = [Player_body (Vector3 0 (17 / 20) 0),
                                      Car_body (Vector3 10 (3 / 5) 10) CAR_SPORT],
                            staticColliders = []\<rparr> (1 / 60)) ! 1) = Vector3 10 (3 / 5) 10
   \<and> \<not> isGrounded (bodies (step \<lparr>bodies = [Player_body (Vector3 0 (17 / 20) 0),
                                      Car_body (Vector3 10 (3 / 5) 10) CAR_SPORT],
                            staticColliders = []\<rparr> (1 / 60)) ! 1)"
  using step_resting_body [of "1 / 60" 0
      "\<lparr>bodies = [Player_body (Vector3 0 (17 / 20) 0), Car_body (Vector3 10 (3 / 5) 10) CAR_SPORT],
        staticColliders = []\<rparr>" "Player_body (Vector3 0 (17 / 20) 0)"]
    step_resting_body [of "1 / 60" 1
      "\<lparr>bodies = [Player_body (Vector3 0 (17 / 20) 0), Car_body (Vector3 10 (3 / 5) 10) CAR_SPORT],
        staticColliders = []\<rparr>" "Car_body (Vector3 10 (3 / 5) 10) CAR_SPORT"]
  by (simp add: Player_body_def Car_body_def CAR_SPORT_def Vector3_def)

section \<open>Determinism\<close>

text \<open>What the loop over an array of references does to the object at an address: the loop
  body is applied as many times as the address occurs in the array.\<close>

lemma length_simulate_refs [simp]: "length (simulate_refs w dt refs s) = length s"
  unfolding simulate_refs_def by (induction refs arbitrary: s) simp_all



lemma length_step_loop_refs [simp]: "length (step_loop_refs n sd w refs s) = length s"
  by (induction n arbitrary: s) simp_all










section \<open>Properties of the vehicle suspension\<close>

lemma applyQuaternion_down:
  "applyQuaternion (Vector3 0 (- 1) 0) q = multiplyScalar (applyQuaternion (Vector3 0 1 0) q) (- 1)"
  by (simp add: applyQuaternion_def Vector3_def multiplyScalar_def Let_def algebra_simps)

lemma multiplyScalar_twice: "multiplyScalar (multiplyScalar v a) c = multiplyScalar v (a * c)"
  by (simp add: multiplyScalar_def)

lemma applyQuaternion_yaw:
  "qx q = 0 \<Longrightarrow> qz q = 0 \<Longrightarrow> applyQuaternion (Vector3 0 c 0) q = Vector3 0 c 0"
  by (simp add: applyQuaternion_def Vector3_def Let_def)

lemma applyQuaternion_down_iff:
  "applyQuaternion (Vector3 0 (- 1) 0) q = Vector3 0 (- 1) 0 \<longleftrightarrow> qx q = 0 \<and> qz q = 0"
proof
  assume "applyQuaternion (Vector3 0 (- 1) 0) q = Vector3 0 (- 1) 0"
  then have "vy (applyQuaternion (Vector3 0 (- 1) 0) q) = - 1" by (simp add: Vector3_def)
  then have "2 * (qx q * qx q) + 2 * (qz q * qz q) = 0"
    by (simp add: applyQuaternion_def Vector3_def Let_def algebra_simps)
  then have "qx q * qx q + qz q * qz q = 0" by linarith
  then show "qx q = 0 \<and> qz q = 0"
    by (simp only: sum_squares_eq_zero_iff)
next
  assume "qx q = 0 \<and> qz q = 0"
  then show "applyQuaternion (Vector3 0 (- 1) 0) q = Vector3 0 (- 1) 0"
    by (simp add: applyQuaternion_yaw)
qed

lemma applyQuaternion_up_iff:
  "applyQuaternion (Vector3 0 1 0) q = Vector3 0 1 0 \<longleftrightarrow> qx q = 0 \<and> qz q = 0"
proof
  assume "applyQuaternion (Vector3 0 1 0) q = Vector3 0 1 0"
  then have "vy (applyQuaternion (Vector3 0 1 0) q) = 1" by (simp add: Vector3_def)
  then have "2 * (qx q * qx q) + 2 * (qz q * qz q) = 0"
    by (simp add: applyQuaternion_def Vector3_def Let_def algebra_simps)
  then have "qx q * qx q + qz q * qz q = 0" by linarith
  then show "qx q = 0 \<and> qz q = 0"
    by (simp only: sum_squares_eq_zero_iff)
next
  assume "qx q = 0 \<and> qz q = 0"
  then show "applyQuaternion (Vector3 0 1 0) q = Vector3 0 1 0"
    by (simp add: applyQuaternion_yaw)
qed

text \<open>
  Claim C2, as the code has it. For every wheel the suspension ray starts at the mount point
  in world space and runs along the body's own down axis, that is \<open>(0, -1, 0)\<close> rotated by
  the body's orientation; it is world \<open>-Y\<close> exactly when the orientation is a rotation about
  the \<open>y\<close> axis (\<open>qx = qz = 0\<close>), and the body's up axis is world up exactly then. The ray has
  length \<open>suspensionLength + wheelRadius\<close>. An impulse is pushed exactly when the ray hits;
  it is applied at the mount point, its force is the body's up axis times the suspension
  force, and the suspension force is \<open>max(0, spring + damp)\<close>, hence never negative.
\<close>

theorem suspension_ray_and_impulse:
  fixes world :: "'a PhysicsWorld_scheme" and body :: PhysicsBody and config :: VehicleConfig
    and mountLocal :: vec3
  defines "s \<equiv> Car_update_suspension world body config mountLocal"
  defines "down \<equiv> applyQuaternion (Vector3 0 (- 1) 0) (rotation body)"
  defines "up \<equiv> applyQuaternion (Vector3 0 1 0) (rotation body)"
  shows "rayOrigin s = add (applyQuaternion mountLocal (rotation body)) (position body)
       \<and> rayDirection s = down
       \<and> rayLength s = suspensionLength config + wheelRadius config
       \<and> (down = Vector3 0 (- 1) 0 \<longleftrightarrow> qx (rotation body) = 0 \<and> qz (rotation body) = 0)
       \<and> (up = Vector3 0 1 0 \<longleftrightarrow> qx (rotation body) = 0 \<and> qz (rotation body) = 0)
       \<and> 0 \<le> suspensionForce s
       \<and> (suspensionImpulse s = None
            \<longleftrightarrow> raycast world (rayOrigin s) (rayDirection s) (rayLength s) = None)
       \<and> (\<forall>h. raycast world (rayOrigin s) (rayDirection s) (rayLength s) = Some h \<longrightarrow>
             suspensionForce s
               = max 0 (max 0 (min 1 (1 - (dist h - wheelRadius config) / suspensionLength config))
                          * suspensionStiffness config
                        + - dot (add (velocity body)
                                   (cross (angularVelocity body) (sub (rayOrigin s) (position body))))
                                down * suspensionDamping config)
             \<and> suspensionImpulse s
                 = Some \<lparr>pos = rayOrigin s, force = multiplyScalar up (suspensionForce s)\<rparr>)"
proof -
  let ?mw = "add (applyQuaternion mountLocal (rotation body)) (position body)"
  let ?len = "suspensionLength config + wheelRadius config"
  have du: "down = multiplyScalar up (- 1)"
    unfolding down_def up_def by (rule applyQuaternion_down)
  have yaw: "(down = Vector3 0 (- 1) 0 \<longleftrightarrow> qx (rotation body) = 0 \<and> qz (rotation body) = 0)
           \<and> (up = Vector3 0 1 0 \<longleftrightarrow> qx (rotation body) = 0 \<and> qz (rotation body) = 0)"
    unfolding down_def up_def by (simp only: applyQuaternion_down_iff applyQuaternion_up_iff)
  show ?thesis
  proof (cases "raycast world ?mw down ?len")
    case None
    have "s = \<lparr>rayOrigin = ?mw, rayDirection = down, rayLength = ?len,
                     suspensionForce = 0, suspensionImpulse = None\<rparr>"
      unfolding s_def Car_update_suspension_def Let_def
      using None [unfolded down_def] by (simp only: option.case down_def)
    then have "rayOrigin s = ?mw" "rayDirection s = down" "rayLength s = ?len"
      "suspensionForce s = 0" "suspensionImpulse s = None"
      by simp_all
    then show ?thesis using None yaw by simp
  next
    case (Some h)
    define sF where "sF = max 0 (max 0 (min 1 (1.0 - ((dist h - wheelRadius config) / suspensionLength config)))
                          * suspensionStiffness config
                        + - dot (add (velocity body)
                                   (cross (angularVelocity body) (sub ?mw (position body))))
                                down * suspensionDamping config)"
    have "s = \<lparr>rayOrigin = ?mw, rayDirection = down, rayLength = ?len, suspensionForce = sF,
                suspensionImpulse = Some \<lparr>pos = ?mw, force = multiplyScalar down (- sF)\<rparr>\<rparr>"
      unfolding s_def Car_update_suspension_def Let_def
      using Some [unfolded down_def] by (simp only: option.case down_def sF_def)
    then have sel: "rayOrigin s = ?mw" "rayDirection s = down" "rayLength s = ?len"
      "suspensionForce s = sF"
      "suspensionImpulse s = Some \<lparr>pos = ?mw, force = multiplyScalar down (- sF)\<rparr>"
      by simp_all
    have f: "multiplyScalar down (- sF) = multiplyScalar up sF"
      unfolding du by (simp add: multiplyScalar_twice)
    have nn: "0 \<le> sF" unfolding sF_def by simp
    have sF': "sF = max 0 (max 0 (min 1 (1 - (dist h - wheelRadius config) / suspensionLength config))
                          * suspensionStiffness config
                        + - dot (add (velocity body)
                                   (cross (angularVelocity body) (sub ?mw (position body))))
                                down * suspensionDamping config)"
      unfolding sF_def by simp
    show ?thesis
      unfolding sel f using Some yaw nn sF' by simp
  qed
qed

theorem suspension_ray_and_impulse_witness:
  "rayDirection (Car_update_suspension \<lparr>bodies = [], staticColliders = []\<rparr>
      (Car_body (Vector3 10 (3 / 5) 10) CAR_SPORT) CAR_SPORT (Vector3 (- 0.85) 0.2 (- 1.35)))
     = Vector3 0 (- 1) 0
   \<and> 0 \<le> suspensionForce (Car_update_suspension \<lparr>bodies = [], staticColliders = []\<rparr>
      ((Car_body (Vector3 10 (9 / 10) 10) CAR_SPORT)
         \<lparr>rotation := \<lparr>qx = 0, qy = 0, qz = 5 / 13, qw = 12 / 13\<rparr>\<rparr>)
      CAR_SPORT (Vector3 (- 0.85) 0.2 (- 1.35)))
   \<and> rayDirection (Car_update_suspension \<lparr>bodies = [], staticColliders = []\<rparr>
      ((Car_body (Vector3 10 (9 / 10) 10) CAR_SPORT)
         \<lparr>rotation := \<lparr>qx = 0, qy = 0, qz = 5 / 13, qw = 12 / 13\<rparr>\<rparr>)
      CAR_SPORT (Vector3 (- 0.85) 0.2 (- 1.35)))
     = applyQuaternion (Vector3 0 (- 1) 0) \<lparr>qx = 0, qy = 0, qz = 5 / 13, qw = 12 / 13\<rparr>
   \<and> rayDirection (Car_update_suspension \<lparr>bodies = [], staticColliders = []\<rparr>
      ((Car_body (Vector3 10 (9 / 10) 10) CAR_SPORT)
         \<lparr>rotation := \<lparr>qx = 0, qy = 0, qz = 5 / 13, qw = 12 / 13\<rparr>\<rparr>)
      CAR_SPORT (Vector3 (- 0.85) 0.2 (- 1.35)))
     \<noteq> Vector3 0 (- 1) 0"
  using suspension_ray_and_impulse [of "\<lparr>bodies = [], staticColliders = []\<rparr>"
      "Car_body (Vector3 10 (3 / 5) 10) CAR_SPORT" CAR_SPORT "Vector3 (- 0.85) 0.2 (- 1.35)"]
    suspension_ray_and_impulse [of "\<lparr>bodies = [], staticColliders = []\<rparr>"
      "(Car_body (Vector3 10 (9 / 10) 10) CAR_SPORT)
         \<lparr>rotation := \<lparr>qx = 0, qy = 0, qz = 5 / 13, qw = 12 / 13\<rparr>\<rparr>"
      CAR_SPORT "Vector3 (- 0.85) 0.2 (- 1.35)"]
  by (simp add: Car_body_def)

text \<open>
  The claim as stated, with the ray along world \<open>-Y\<close> and the impulse along world up whatever
  the orientation, fails for a car rolled about its \<open>z\<close> axis: the ray of the front left
  wheel leans in \<open>x\<close>, and so does the force.
\<close>

theorem suspension_ray_counterexample:
  "rayDirection (Car_update_suspension \<lparr>bodies = [], staticColliders = []\<rparr>
      ((Car_body (Vector3 10 (9 / 10) 10) CAR_SPORT)
         \<lparr>rotation := \<lparr>qx = 0, qy = 0, qz = 5 / 13, qw = 12 / 13\<rparr>\<rparr>)
      CAR_SPORT (Vector3 (- 0.85) 0.2 (- 1.35)))
     = Vector3 (120 / 169) (- (119 / 169)) 0
   \<and> suspensionImpulse (Car_update_suspension \<lparr>bodies = [], staticColliders = []\<rparr>
      ((Car_body (Vector3 10 (9 / 10) 10) CAR_SPORT)
         \<lparr>rotation := \<lparr>qx = 0, qy = 0, qz = 5 / 13, qw = 12 / 13\<rparr>\<rparr>)
      CAR_SPORT (Vector3 (- 0.85) 0.2 (- 1.35)))
     = Some \<lparr>pos = Vector3 (31297 / 3380) (739 / 1690) (173 / 20),
             force = Vector3 (- (233460000 / 20111)) (1945500 / 169) 0\<rparr>"
  by (simp add: Car_update_suspension_def Car_body_def CAR_SPORT_def raycast_def Let_def
        applyQuaternion_def add_def sub_def cross_def dot_def multiplyScalar_def
        addScaledVector_def Vector3_def)

section \<open>Properties of the camera probe\<close>

lemma distanceTo_nonneg [simp]: "0 \<le> distanceTo v w"
  by (simp add: distanceTo_def)





























end
